theory Spec2Isabelle
  imports Main "HOL-Library.Word"
begin

unbundle bit_operations_syntax

section \<open>Go values used by the runtime\<close>

text \<open>
  A Go \<open>string\<close> is a sequence of bytes, here a \<open>char list\<close>. \<open>int64\<close> is a 64-bit
  word read in two's complement by \<open>sint\<close>; its arithmetic wraps around as Go's does.
\<close>

type_synonym int64 = "64 word"

text \<open>
  Errors are values. \<open>fmt.Errorf\<close> is kept as the format string with its arguments, so
  that two errors are equal exactly when format and arguments are; \<open>%w\<close> arguments are
  the wrapped errors. \<open>NumError\<close> is what \<open>strconv.ParseInt\<close> returns, \<open>ExitError\<close> what
  \<open>exec.Cmd.Wait\<close> builds from the state of a child that did not succeed, and \<open>OSError\<close> stands
  for whatever error a system call or a library query of the file system reports.
\<close>

datatype numerr = ErrSyntax | ErrRange

datatype pstate = Exited nat | Signaled nat

datatype oserror = OSError string

datatype error =
    Os oserror
  | NumError string string numerr
  | ExitError pstate
  | Errorf string "arg list"
and arg =
    Str string
  | Strs "string list"
  | Num int
  | Wrapped error

text \<open>
  A call either returns or panics; a function with an \<open>error\<close> result returns a value
  or an error.
\<close>

datatype 'a result = Ok 'a | Err error | Panic string

section \<open>The memory-limit parser\<close>

subsection \<open>\<open>strings.TrimSpace\<close>\<close>

text \<open>
  \<open>strings.TrimSpace\<close> removes leading and trailing white space as Unicode defines it. On
  the bytes of a string these are the six ASCII characters and the UTF-8 encodings of
  U+0085, U+00A0, U+1680, U+2000 to U+200A, U+2028, U+2029, U+202F, U+205F and U+3000.
\<close>

definition spaceEncodings :: "string list" where
  "spaceEncodings =
    [[CHR 0x09], [CHR 0x0A], [CHR 0x0B], [CHR 0x0C], [CHR 0x0D], [CHR 0x20],
     [CHR 0xC2, CHR 0x85], [CHR 0xC2, CHR 0xA0],
     [CHR 0xE1, CHR 0x9A, CHR 0x80],
     [CHR 0xE2, CHR 0x80, CHR 0x80], [CHR 0xE2, CHR 0x80, CHR 0x81],
     [CHR 0xE2, CHR 0x80, CHR 0x82], [CHR 0xE2, CHR 0x80, CHR 0x83],
     [CHR 0xE2, CHR 0x80, CHR 0x84], [CHR 0xE2, CHR 0x80, CHR 0x85],
     [CHR 0xE2, CHR 0x80, CHR 0x86], [CHR 0xE2, CHR 0x80, CHR 0x87],
     [CHR 0xE2, CHR 0x80, CHR 0x88], [CHR 0xE2, CHR 0x80, CHR 0x89],
     [CHR 0xE2, CHR 0x80, CHR 0x8A],
     [CHR 0xE2, CHR 0x80, CHR 0xA8], [CHR 0xE2, CHR 0x80, CHR 0xA9],
     [CHR 0xE2, CHR 0x80, CHR 0xAF],
     [CHR 0xE2, CHR 0x81, CHR 0x9F],
     [CHR 0xE3, CHR 0x80, CHR 0x80]]"

text \<open>The width in bytes of the white-space character a string starts (ends) with, 0 if
  it starts (ends) with none.\<close>

definition leadingSpace :: "string \<Rightarrow> nat" where
  "leadingSpace s =
    (case find (\<lambda>e. take (length e) s = e) spaceEncodings of
       None \<Rightarrow> 0 | Some e \<Rightarrow> length e)"

definition trailingSpace :: "string \<Rightarrow> nat" where
  "trailingSpace s =
    (case find (\<lambda>e. length e \<le> length s \<and> drop (length s - length e) s = e) spaceEncodings of
       None \<Rightarrow> 0 | Some e \<Rightarrow> length e)"

lemma leadingSpace_le: "leadingSpace s \<le> length s"
proof (cases "find (\<lambda>e. take (length e) s = e) spaceEncodings")
  case None
  then show ?thesis by (simp add: leadingSpace_def)
next
  case (Some e)
  then have "take (length e) s = e" by (auto simp: find_Some_iff)
  then have "length (take (length e) s) = length e" by simp
  then have "length e \<le> length s" by simp
  with Some show ?thesis by (simp add: leadingSpace_def)
qed

lemma trailingSpace_le: "trailingSpace s \<le> length s"
  by (auto simp: trailingSpace_def find_Some_iff split: option.splits)

function trimLeft :: "string \<Rightarrow> string" where
  "trimLeft s = (if leadingSpace s = 0 then s else trimLeft (drop (leadingSpace s) s))"
  by pat_completeness auto
termination
proof (relation "measure length")
  fix s :: string
  assume "leadingSpace s \<noteq> 0"
  with leadingSpace_le [of s] show "(drop (leadingSpace s) s, s) \<in> measure length"
    by simp
qed simp

function trimRight :: "string \<Rightarrow> string" where
  "trimRight s =
     (if trailingSpace s = 0 then s else trimRight (take (length s - trailingSpace s) s))"
  by pat_completeness auto
termination
proof (relation "measure length")
  fix s :: string
  assume "trailingSpace s \<noteq> 0"
  with trailingSpace_le [of s] show "(take (length s - trailingSpace s) s, s) \<in> measure length"
    by simp
qed simp

declare trimLeft.simps [simp del] trimRight.simps [simp del]

definition TrimSpace :: "string \<Rightarrow> string" where
  "TrimSpace s = trimRight (trimLeft s)"

subsection \<open>\<open>strconv.ParseInt\<close> in base 10 with 64 bits\<close>

definition isDigit :: "char \<Rightarrow> bool" where
  "isDigit c \<longleftrightarrow> (48::nat) \<le> of_char c \<and> of_char c \<le> (57::nat)"

definition digitVal :: "char \<Rightarrow> nat" where
  "digitVal c = of_char c - 48"

text \<open>
  The loop of \<open>ParseUint\<close>: a byte that is no decimal digit is a syntax error; the
  accumulator leaving 64 bits is a range error, found at the digit where it happens.
\<close>

fun parseUintLoop :: "nat \<Rightarrow> string \<Rightarrow> numerr + nat" where
  "parseUintLoop n [] = Inr n"
| "parseUintLoop n (c # cs) =
     (if \<not> isDigit c then Inl ErrSyntax
      else if n \<ge> (2 ^ 64 - 1) div 10 + 1 then Inl ErrRange
      else if n * 10 + digitVal c > 2 ^ 64 - 1 then Inl ErrRange
      else parseUintLoop (n * 10 + digitVal c) cs)"

definition ParseUint :: "string \<Rightarrow> numerr + nat" where
  "ParseUint s = (if s = [] then Inl ErrSyntax else parseUintLoop 0 s)"

definition ParseInt :: "string \<Rightarrow> error + int64" where
  "ParseInt s0 =
     (if s0 = [] then Inl (NumError ''ParseInt'' s0 ErrSyntax)
      else
        let neg = (hd s0 = CHR ''-'');
            s = (if hd s0 = CHR ''+'' \<or> hd s0 = CHR ''-'' then tl s0 else s0)
        in case ParseUint s of
             Inl e \<Rightarrow> Inl (NumError ''ParseInt'' s0 e)
           | Inr un \<Rightarrow>
               if \<not> neg \<and> un \<ge> 2 ^ 63 then Inl (NumError ''ParseInt'' s0 ErrRange)
               else if neg \<and> un > 2 ^ 63 then Inl (NumError ''ParseInt'' s0 ErrRange)
               else Inr (if neg then - of_nat un else of_nat un))"

subsection \<open>\<open>parseMemLimit\<close>\<close>

text \<open>
  The tail of \<open>parseMemLimit\<close>, after the switch on the unit has fixed the multiplier
  and the digits.
\<close>

definition parseScaled :: "int64 \<Rightarrow> string \<Rightarrow> int64 result" where
  "parseScaled mult s =
     (case ParseInt s of
        Inl e \<Rightarrow> Err (Errorf ''parse integer from %q: %w'' [Str s, Wrapped e])
      | Inr base \<Rightarrow> Ok (base * mult))"

text \<open>
  \<open>string(unit)\<close> of a byte is the UTF-8 encoding of the code point with that number: the
  byte itself below 0x80, two bytes from 0x80 on.
\<close>

definition stringOfByte :: "char \<Rightarrow> string" where
  "stringOfByte c =
     (if (of_char c :: nat) < 128 then [c]
      else [char_of (192 + (of_char c :: nat) div 64), char_of (128 + (of_char c :: nat) mod 64)])"

text \<open>
  The string is tested for emptiness before it is trimmed; \<open>s[len(s)-1]\<close> on the
  trimmed string panics when nothing is left of it.
\<close>

definition parseMemLimit :: "string \<Rightarrow> int64 result" where
  "parseMemLimit s0 =
     (if s0 = [] then Err (Errorf ''empty memory limit'' [])
      else
        let s = TrimSpace s0 in
        if s = [] then Panic ''runtime error: index out of range [-1]''
        else
          let unit = last s in
          if unit = CHR ''k'' \<or> unit = CHR ''K'' then parseScaled 1024 (butlast s)
          else if unit = CHR ''m'' \<or> unit = CHR ''M'' then parseScaled (1024 * 1024) (butlast s)
          else if unit = CHR ''g'' \<or> unit = CHR ''G''
            then parseScaled (1024 * 1024 * 1024) (butlast s)
          else if (of_char unit :: nat) < 48 \<or> (of_char unit :: nat) > 57
            then Err (Errorf ''invalid memory limit suffix %q'' [Str (stringOfByte unit)])
          else parseScaled 1 s)"

subsection \<open>The value the specification gives a memory string\<close>

text \<open>
  Written from the specification's words, to be compared with \<open>parseMemLimit\<close>: the unit
  multiplier of the final character, the numeric prefix that is left when a unit letter is
  dropped, and the integer a signed decimal numeral denotes, all over the unbounded
  integers.
\<close>

definition isUnit :: "char \<Rightarrow> bool" where
  "isUnit c \<longleftrightarrow> c = CHR ''k'' \<or> c = CHR ''K'' \<or> c = CHR ''m'' \<or> c = CHR ''M''
     \<or> c = CHR ''g'' \<or> c = CHR ''G''"

definition unitMultiplier :: "char \<Rightarrow> int" where
  "unitMultiplier c =
     (if c = CHR ''k'' \<or> c = CHR ''K'' then 1024
      else if c = CHR ''m'' \<or> c = CHR ''M'' then 1024 ^ 2
      else if c = CHR ''g'' \<or> c = CHR ''G'' then 1024 ^ 3
      else 1)"

definition numericPrefix :: "string \<Rightarrow> string" where
  "numericPrefix s = (if isUnit (last s) then butlast s else s)"

definition digitsValue :: "string \<Rightarrow> nat" where
  "digitsValue ds = foldl (\<lambda>a c. 10 * a + digitVal c) 0 ds"

definition unsignedPart :: "string \<Rightarrow> string" where
  "unsignedPart s =
     (case s of [] \<Rightarrow> [] | c # cs \<Rightarrow> if c = CHR ''+'' \<or> c = CHR ''-'' then cs else s)"

definition decimalValue :: "string \<Rightarrow> int" where
  "decimalValue s =
     (case s of
        [] \<Rightarrow> 0
      | c # cs \<Rightarrow> if c = CHR ''-'' then - int (digitsValue cs) else int (digitsValue (unsignedPart s)))"

definition wellFormedDecimal :: "string \<Rightarrow> bool" where
  "wellFormedDecimal s \<longleftrightarrow> unsignedPart s \<noteq> [] \<and> list_all isDigit (unsignedPart s)"

definition specBytes :: "string \<Rightarrow> int" where
  "specBytes s =
     decimalValue (numericPrefix (TrimSpace s)) * unitMultiplier (last (TrimSpace s))"

section \<open>Library functions on paths and numbers\<close>

text \<open>\<open>strconv.Itoa\<close>, \<open>strconv.FormatInt\<close> in base 10 and the verb \<open>%d\<close>.\<close>

definition digitChar :: "nat \<Rightarrow> char" where
  "digitChar d = ''0123456789'' ! d"

fun natString :: "nat \<Rightarrow> string" where
  "natString n =
     (if n < 10 then [digitChar n]
      else natString (n div 10) @ [digitChar (n mod 10)])"

declare natString.simps [simp del]

definition Itoa :: "int \<Rightarrow> string" where
  "Itoa i = (if i < 0 then CHR ''-'' # natString (nat (- i)) else natString (nat i))"

text \<open>
  \<open>filepath.Join\<close> on Unix: the elements from the first non-empty one on are joined by
  \<open>/\<close> and the result is cleaned (\<open>filepath.Clean\<close>: empty and \<open>.\<close> elements go, a
  \<open>..\<close> takes the element before it away, and \<open>..\<close> at the root goes).
\<close>

fun splitSlash :: "string \<Rightarrow> string list" where
  "splitSlash [] = [[]]"
| "splitSlash (c # cs) =
     (if c = CHR ''/'' then [] # splitSlash cs
      else (case splitSlash cs of [] \<Rightarrow> [[c]] | x # xs \<Rightarrow> (c # x) # xs))"

fun cleanElems :: "bool \<Rightarrow> string list \<Rightarrow> string list \<Rightarrow> string list" where
  "cleanElems rooted out [] = rev out"
| "cleanElems rooted out (e # es) =
     (if e = [] \<or> e = ''.'' then cleanElems rooted out es
      else if e = ''..'' then
        (case out of
           [] \<Rightarrow> if rooted then cleanElems rooted out es else cleanElems rooted [e] es
         | t # ts \<Rightarrow> if t = ''..'' then cleanElems rooted (e # out) es
                    else cleanElems rooted ts es)
      else cleanElems rooted (e # out) es)"

fun joinSlash :: "string list \<Rightarrow> string" where
  "joinSlash [] = []"
| "joinSlash [e] = e"
| "joinSlash (e # es) = e @ CHR ''/'' # joinSlash es"

definition Clean :: "string \<Rightarrow> string" where
  "Clean path =
     (let rooted = (path \<noteq> [] \<and> hd path = CHR ''/'');
          out = (if rooted then ''/'' else []) @ joinSlash (cleanElems rooted [] (splitSlash path))
      in if out = [] then ''.'' else out)"

definition Join :: "string list \<Rightarrow> string" where
  "Join elem =
     (case dropWhile (\<lambda>e. e = []) elem of [] \<Rightarrow> [] | es \<Rightarrow> Clean (joinSlash es))"

section \<open>The operating system\<close>

text \<open>
  Every operation of the runtime on the world outside it is a \<open>call\<close>, with the
  arguments the source passes.
\<close>

datatype call =
    Sethostname string
  | Mount string string string "64 word" string
  | Unmount string int
  | PivotRoot string string
  | Chdir string
  | MkdirAll string nat
  | Mkdir string nat
  | RemoveAll string
  | Stat string
  | WriteFile string string nat
  | Exec string "string list" "string list"
  | Run string "string list"
  | Abs string
  | LookPath string
  | Start string "string list" "string list" "64 word"
  | Wait int

text \<open>A file mode written in octal, \<open>0ugo\<close>.\<close>

definition perm :: "nat \<Rightarrow> nat \<Rightarrow> nat \<Rightarrow> nat" where
  "perm u g r = 64 * u + 8 * g + r"

text \<open>What a run leaves behind to be observed: its calls and the lines it logs, in order.\<close>

datatype event = Call call | Log string "arg list"

text \<open>The three flags and the remaining arguments, as \<open>flag.FlagSet.Parse\<close> leaves them;
  with \<open>flag.ExitOnError\<close> a malformed command line ends the process inside \<open>Parse\<close>.\<close>

record flags =
  rootfs :: string
  memLimit :: string
  hostname :: string
  remaining :: "string list"

datatype flagres = FlagExit int | Flags flags

text \<open>
  The platform is a parameter: how each call changes the world \<open>'w\<close> and what it
  answers. Nothing is assumed about it, so whatever is proved holds for every way the
  calls can succeed or fail.
\<close>

record 'w platform =
  sys :: "call \<Rightarrow> 'w \<Rightarrow> oserror option \<times> 'w"
  sysPath :: "call \<Rightarrow> 'w \<Rightarrow> (oserror + string) \<times> 'w"
  sysStart :: "call \<Rightarrow> 'w \<Rightarrow> (oserror + int) \<times> 'w"
  sysWait :: "call \<Rightarrow> 'w \<Rightarrow> (oserror + pstate) \<times> 'w"
  flagParse :: "string list \<Rightarrow> flagres"

record 'w state =
  world :: 'w
  trace :: "event list"

record proc =
  args :: "string list"
  environ :: "string list"

definition record_event :: "event \<Rightarrow> 'w \<Rightarrow> 'w state \<Rightarrow> 'w state" where
  "record_event ev w st = \<lparr>world = w, trace = trace st @ [ev]\<rparr>"

definition syscall :: "'w platform \<Rightarrow> call \<Rightarrow> 'w state \<Rightarrow> error option \<times> 'w state" where
  "syscall K c st =
     (case sys K c (world st) of (r, w) \<Rightarrow> (map_option Os r, record_event (Call c) w st))"

definition pathcall :: "'w platform \<Rightarrow> call \<Rightarrow> 'w state \<Rightarrow> (error + string) \<times> 'w state" where
  "pathcall K c st =
     (case sysPath K c (world st) of (r, w) \<Rightarrow> (map_sum Os id r, record_event (Call c) w st))"

definition logPrintf :: "string \<Rightarrow> arg list \<Rightarrow> 'w state \<Rightarrow> 'w state" where
  "logPrintf fmt as st = record_event (Log fmt as) (world st) st"

text \<open>The process ends in one of these ways. \<open>log.Fatal\<close> prints and exits with status 1;
  a panic that nothing recovers ends the process with status 2.\<close>

datatype outcome = Returned | OsExit int | Fatal | Crashed string | Replaced

definition logFatalf :: "string \<Rightarrow> arg list \<Rightarrow> 'w state \<Rightarrow> outcome \<times> 'w state" where
  "logFatalf fmt as st = (Fatal, logPrintf fmt as st)"

definition exitStatus :: "outcome \<Rightarrow> int option" where
  "exitStatus out =
     (case out of
        Returned \<Rightarrow> Some 0
      | OsExit c \<Rightarrow> Some (c mod 256)
      | Fatal \<Rightarrow> Some 1
      | Crashed m \<Rightarrow> Some 2
      | Replaced \<Rightarrow> None)"

text \<open>\<open>os.Getenv\<close>: the value of the first entry \<open>key=value\<close> of the environment, the
  empty string when there is none.\<close>

definition Getenv :: "string list \<Rightarrow> string \<Rightarrow> string" where
  "Getenv envs key =
     (case find (\<lambda>e. CHR ''='' \<in> set e \<and> takeWhile (\<lambda>c. c \<noteq> CHR ''='') e = key) envs of
        None \<Rightarrow> []
      | Some e \<Rightarrow> tl (dropWhile (\<lambda>c. c \<noteq> CHR ''='') e))"

section \<open>The container initializer\<close>

text \<open>The flags of \<open>mount(2)\<close> and \<open>umount2(2)\<close> the source names, with their Linux values.\<close>

definition MS_BIND :: "64 word" where "MS_BIND = 0x1000"
definition MS_REC :: "64 word" where "MS_REC = 0x4000"
definition MS_PRIVATE :: "64 word" where "MS_PRIVATE = 0x40000"
definition MNT_DETACH :: int where "MNT_DETACH = 2"

definition pivotRoot :: "'w platform \<Rightarrow> string \<Rightarrow> 'w state \<Rightarrow> error option \<times> 'w state" where
  "pivotRoot K newRoot st0 =
     (case pathcall K (Abs newRoot) st0 of
        (Inl e, st1) \<Rightarrow>
          (Some (Errorf ''failed to get absolute path of newRoot %q: %w'' [Str newRoot, Wrapped e]),
           st1)
      | (Inr absRoot, st1) \<Rightarrow>
     let putOld = Join [absRoot, ''.pivot_root''] in
     (case syscall K (MkdirAll putOld (perm 7 0 0)) st1 of
        (Some e, st2) \<Rightarrow> (Some (Errorf ''mkdir %q: %w'' [Str putOld, Wrapped e]), st2)
      | (None, st2) \<Rightarrow>
     (case syscall K (Mount absRoot absRoot [] (MS_BIND OR MS_REC) []) st2 of
        (Some e, st3) \<Rightarrow>
          (Some (Errorf ''mount --bind %q onto itself: %w'' [Str absRoot, Wrapped e]), st3)
      | (None, st3) \<Rightarrow>
     (case syscall K (PivotRoot absRoot putOld) st3 of
        (Some e, st4) \<Rightarrow>
          (Some (Errorf ''pivot_root(%q, %q): %w'' [Str absRoot, Str putOld, Wrapped e]), st4)
      | (None, st4) \<Rightarrow>
     (case syscall K (Chdir ''/'') st4 of
        (Some e, st5) \<Rightarrow> (Some (Errorf ''chdir / after pivot: %w'' [Wrapped e]), st5)
      | (None, st5) \<Rightarrow>
     let oldRoot = ''/.pivot_root'' in
     (case syscall K (Unmount oldRoot MNT_DETACH) st5 of
        (Some e, st6) \<Rightarrow> (Some (Errorf ''unmount %q: %w'' [Str oldRoot, Wrapped e]), st6)
      | (None, st6) \<Rightarrow>
     (case syscall K (RemoveAll oldRoot) st6 of
        (Some e, st7) \<Rightarrow> (Some (Errorf ''removeAll %q: %w'' [Str oldRoot, Wrapped e]), st7)
      | (None, st7) \<Rightarrow> (None, st7))))))))"

definition mountProc :: "'w platform \<Rightarrow> 'w state \<Rightarrow> error option \<times> 'w state" where
  "mountProc K st0 =
     (case syscall K (MkdirAll ''/proc'' (perm 5 5 5)) st0 of
        (Some e, st1) \<Rightarrow> (Some (Errorf ''mkdir /proc: %w'' [Wrapped e]), st1)
      | (None, st1) \<Rightarrow>
     (case syscall K (Mount ''proc'' ''/proc'' ''proc'' 0 []) st1 of
        (Some e, st2) \<Rightarrow> (Some (Errorf ''mount procfs: %w'' [Wrapped e]), st2)
      | (None, st2) \<Rightarrow> (None, st2)))"

definition setupLoopback :: "'w platform \<Rightarrow> 'w state \<Rightarrow> error option \<times> 'w state" where
  "setupLoopback K st0 =
     (case pathcall K (LookPath ''ip'') st0 of
        (Inl e, st1) \<Rightarrow>
          (case pathcall K (LookPath ''ifconfig'') st1 of
             (Inl ifErr, st2) \<Rightarrow>
               (Some (Errorf ''neither 'ip' nor 'ifconfig' found to bring up loopback'' []), st2)
           | (Inr ifconfigPath, st2) \<Rightarrow> syscall K (Run ifconfigPath [''lo'', ''up'']) st2)
      | (Inr ipPath, st1) \<Rightarrow> syscall K (Run ipPath [''link'', ''set'', ''lo'', ''up'']) st1)"

text \<open>\<open>containerInit\<close> returns an error, or its process image is replaced by the command.\<close>

datatype initres = InitError error | ImageReplaced

definition containerInit :: "'w platform \<Rightarrow> proc \<Rightarrow> 'w state \<Rightarrow> initres \<times> 'w state" where
  "containerInit K p st0 =
     (let newRoot = Getenv (environ p) ''ROOTFS'' in
      if newRoot = [] then (InitError (Errorf ''ROOTFS not set'' []), st0)
      else
     let host = Getenv (environ p) ''HOSTNAME'' in
     (case (if host \<noteq> [] then syscall K (Sethostname host) st0 else (None, st0)) of
        (Some e, st1) \<Rightarrow> (InitError (Errorf ''sethostname(%q): %w'' [Str host, Wrapped e]), st1)
      | (None, st1) \<Rightarrow>
     (case syscall K (Mount [] ''/'' [] (MS_PRIVATE OR MS_REC) []) st1 of
        (Some e, st2) \<Rightarrow> (InitError (Errorf ''remount / as private: %w'' [Wrapped e]), st2)
      | (None, st2) \<Rightarrow>
     (case pivotRoot K newRoot st2 of
        (Some e, st3) \<Rightarrow> (InitError (Errorf ''pivotRoot: %w'' [Wrapped e]), st3)
      | (None, st3) \<Rightarrow>
     (case mountProc K st3 of
        (Some e, st4) \<Rightarrow> (InitError (Errorf ''mountProc: %w'' [Wrapped e]), st4)
      | (None, st4) \<Rightarrow>
     let st5 =
       (case setupLoopback K st4 of
          (Some e, st) \<Rightarrow>
            logPrintf ''[container] warning: failed to bring up loopback: %v'' [Wrapped e] st
        | (None, st) \<Rightarrow> st)
     in
     if length (args p) < 3
     then (InitError (Errorf ''no command provided for container to run'' []), st5)
     else
     let cmdPath = args p ! 2; cmdArgs = drop 2 (args p) in
     (case syscall K (Exec cmdPath cmdArgs (environ p)) st5 of
        (Some e, st6) \<Rightarrow>
          (InitError (Errorf ''exec %q %v: %w'' [Str cmdPath, Strs cmdArgs, Wrapped e]), st6)
      | (None, st6) \<Rightarrow> (ImageReplaced, st6)))))))"

section \<open>The resource limiter\<close>

definition applyMemoryCgroupLimit ::
  "'w platform \<Rightarrow> int \<Rightarrow> int64 \<Rightarrow> 'w state \<Rightarrow> error option \<times> 'w state" where
  "applyMemoryCgroupLimit K pid limitBytes st0 =
     (let cgroupBase = ''/sys/fs/cgroup/memory'' in
     (case syscall K (Stat cgroupBase) st0 of
        (Some e, st1) \<Rightarrow>
          (Some (Errorf ''%q not found or not accessible: %w'' [Str cgroupBase, Wrapped e]), st1)
      | (None, st1) \<Rightarrow>
     let cgroupPath = Join [cgroupBase, ''mini_'' @ Itoa pid] in
     (case syscall K (Mkdir cgroupPath (perm 7 5 5)) st1 of
        (Some e, st2) \<Rightarrow> (Some (Errorf ''mkdir %q: %w'' [Str cgroupPath, Wrapped e]), st2)
      | (None, st2) \<Rightarrow>
     let limitPath = Join [cgroupPath, ''memory.limit_in_bytes''] in
     (case syscall K (WriteFile limitPath (Itoa (sint limitBytes)) (perm 6 4 4)) st2 of
        (Some e, st3) \<Rightarrow> (Some (Errorf ''write %q: %w'' [Str limitPath, Wrapped e]), st3)
      | (None, st3) \<Rightarrow>
     let procsPath = Join [cgroupPath, ''cgroup.procs''] in
     (case syscall K (WriteFile procsPath (Itoa pid) (perm 6 4 4)) st3 of
        (Some e, st4) \<Rightarrow> (Some (Errorf ''write %q: %w'' [Str procsPath, Wrapped e]), st4)
      | (None, st4) \<Rightarrow> (None, st4))))))"

section \<open>The runtime launcher\<close>

definition CLONE_NEWUTS :: "64 word" where "CLONE_NEWUTS = 0x04000000"
definition CLONE_NEWPID :: "64 word" where "CLONE_NEWPID = 0x20000000"
definition CLONE_NEWNS :: "64 word" where "CLONE_NEWNS = 0x00020000"
definition CLONE_NEWNET :: "64 word" where "CLONE_NEWNET = 0x40000000"
definition CLONE_NEWIPC :: "64 word" where "CLONE_NEWIPC = 0x08000000"

definition startcall :: "'w platform \<Rightarrow> call \<Rightarrow> 'w state \<Rightarrow> (error + int) \<times> 'w state" where
  "startcall K c st =
     (case sysStart K c (world st) of (r, w) \<Rightarrow> (map_sum Os id r, record_event (Call c) w st))"

text \<open>
  \<open>exec.Cmd.Wait\<close> waits for the child once. When the wait itself fails it returns that
  error; when the child exited with status 0 it returns \<open>nil\<close>; otherwise (a non-zero
  status, or a child ended by a signal) it returns an \<open>*exec.ExitError\<close> holding the
  child's state. \<open>ExitCode\<close> of that state is the exit status, or -1 when the child did
  not exit by itself.
\<close>

definition cmdWait :: "'w platform \<Rightarrow> int \<Rightarrow> 'w state \<Rightarrow> error option \<times> 'w state" where
  "cmdWait K pid st =
     (case sysWait K (Wait pid) (world st) of
        (r, w) \<Rightarrow>
          ((case r of
              Inl e \<Rightarrow> Some (Os e)
            | Inr ps \<Rightarrow> if ps = Exited 0 then None else Some (ExitError ps)),
           record_event (Call (Wait pid)) w st))"

definition ExitCode :: "pstate \<Rightarrow> int" where
  "ExitCode ps = (case ps of Exited c \<Rightarrow> int c | Signaled sig \<Rightarrow> - 1)"

text \<open>
  \<open>main\<close> in runtime mode is three blocks, each under its own comment in the source;
  they are modelled one by one. The first parses the flags, checks them and starts the
  child: it ends the process, or yields the flags and the child's process id. The child
  is started with the launcher's own standard streams; they play no part here and are
  left out of the \<open>Start\<close> call.
\<close>

definition startChild ::
  "'w platform \<Rightarrow> proc \<Rightarrow> 'w state \<Rightarrow> (outcome + flags \<times> int) \<times> 'w state" where
  "startChild K p st0 =
     (if args p = [] then (Inl (Crashed ''runtime error: slice bounds out of range [1:0]''), st0)
      else
     (case flagParse K (tl (args p)) of
        FlagExit code \<Rightarrow> (Inl (OsExit code), st0)
      | Flags f \<Rightarrow>
     if rootfs f = [] then map_prod Inl id (logFatalf ''Error: --rootfs must be specified'' [] st0)
     else if remaining f = []
     then map_prod Inl id
       (logFatalf ''Error: must specify at least one command to run inside the container'' [] st0)
     else
     (case pathcall K (LookPath (hd (args p))) st0 of
        (Inl e, st1) \<Rightarrow>
          map_prod Inl id (logFatalf ''failed to find self executable: %v'' [Wrapped e] st1)
      | (Inr cmdPath, st1) \<Rightarrow>
     let childArgs = ''init'' # remaining f;
         env = environ p @
           [''ROOTFS='' @ rootfs f, ''MEMLIMIT='' @ memLimit f, ''HOSTNAME='' @ hostname f];
         cloneflags =
           CLONE_NEWUTS OR CLONE_NEWPID OR CLONE_NEWNS OR CLONE_NEWNET OR CLONE_NEWIPC;
         st2 = logPrintf ''[runtime] starting child process in new namespaces'' [] st1
     in
     (case startcall K (Start cmdPath (cmdPath # childArgs) env cloneflags) st2 of
        (Inl e, st3) \<Rightarrow>
          map_prod Inl id (logFatalf ''failed to start child process: %v'' [Wrapped e] st3)
      | (Inr childPid, st3) \<Rightarrow>
          (Inr (f, childPid), logPrintf ''[runtime] child PID: %d'' [Num childPid] st3)))))"

text \<open>The second block applies the memory limit; it yields the message of a panic, if the
  parser panics.\<close>

definition limitChild ::
  "'w platform \<Rightarrow> string \<Rightarrow> int \<Rightarrow> 'w state \<Rightarrow> string option \<times> 'w state" where
  "limitChild K mem childPid st0 =
     (if mem \<noteq> [] then
        (case parseMemLimit mem of
           Panic m \<Rightarrow> (Some m, st0)
         | Err e \<Rightarrow>
             (None,
              logPrintf ''[runtime] warning: could not parse memory limit %q: %v''
                [Str mem, Wrapped e] st0)
         | Ok limitBytes \<Rightarrow>
             (case applyMemoryCgroupLimit K childPid limitBytes st0 of
                (Some e, st1) \<Rightarrow>
                  (None,
                   logPrintf ''[runtime] warning: failed to apply memory cgroup limit: %v''
                     [Wrapped e] st1)
              | (None, st1) \<Rightarrow>
                  (None,
                   logPrintf ''[runtime] applied memory limit %d bytes to PID %d''
                     [Num (sint limitBytes), Num childPid] st1)))
      else (None, st0))"

text \<open>The third block waits for the child and passes its exit code on.\<close>

definition waitChild :: "'w platform \<Rightarrow> int \<Rightarrow> 'w state \<Rightarrow> outcome \<times> 'w state" where
  "waitChild K childPid st0 =
     (case cmdWait K childPid st0 of
        (None, st1) \<Rightarrow> (Returned, st1)
      | (Some (ExitError ps), st1) \<Rightarrow> (OsExit (ExitCode ps), st1)
      | (Some e, st1) \<Rightarrow> logFatalf ''error waiting for child process: %v'' [Wrapped e] st1)"

definition initMode :: "proc \<Rightarrow> bool" where
  "initMode p \<longleftrightarrow> length (args p) > 1 \<and> args p ! 1 = ''init''"

definition main :: "'w platform \<Rightarrow> proc \<Rightarrow> 'w state \<Rightarrow> outcome \<times> 'w state" where
  "main K p st0 =
     (if initMode p then
        (case containerInit K p st0 of
           (InitError e, st1) \<Rightarrow> logFatalf ''container init failed: %v'' [Wrapped e] st1
         | (ImageReplaced, st1) \<Rightarrow> (Replaced, st1))
      else
     (case startChild K p st0 of
        (Inl out, st1) \<Rightarrow> (out, st1)
      | (Inr (f, childPid), st1) \<Rightarrow>
     (case limitChild K (memLimit f) childPid st1 of
        (Some m, st2) \<Rightarrow> (Crashed m, st2)
      | (None, st2) \<Rightarrow> waitChild K childPid st2)))"

section \<open>Running a list of calls in order\<close>

text \<open>
  What "these steps in this order, the first failure ending the sequence" means: the
  calls are made one after the other on the state the one before left; the first that
  fails ends the run, which yields its position and its error, and the state that call
  left.
\<close>

fun runSteps :: "'w platform \<Rightarrow> call list \<Rightarrow> 'w state \<Rightarrow> (nat \<times> error) option \<times> 'w state" where
  "runSteps K [] st = (None, st)"
| "runSteps K (c # cs) st =
     (case syscall K c st of
        (Some e, st1) \<Rightarrow> (Some (0, e), st1)
      | (None, st1) \<Rightarrow>
          (case runSteps K cs st1 of
             (Some (i, e), st2) \<Rightarrow> (Some (Suc i, e), st2)
           | (None, st2) \<Rightarrow> (None, st2)))"

section \<open>The sequences the specification lists\<close>

text \<open>
  The pivot sequence after the new root has been resolved to \<open>absRoot\<close>, step 2 to step 7
  of the specification, and the error \<open>pivotRoot\<close> returns when the step at position
  \<open>i\<close> of it fails with \<open>e\<close>.
\<close>

definition pivotCalls :: "string \<Rightarrow> call list" where
  "pivotCalls absRoot =
     [MkdirAll (Join [absRoot, ''.pivot_root'']) (perm 7 0 0),
      Mount absRoot absRoot [] (MS_BIND OR MS_REC) [],
      PivotRoot absRoot (Join [absRoot, ''.pivot_root'']),
      Chdir ''/'',
      Unmount ''/.pivot_root'' MNT_DETACH,
      RemoveAll ''/.pivot_root'']"

definition pivotError :: "string \<Rightarrow> nat \<Rightarrow> error \<Rightarrow> error" where
  "pivotError absRoot i e =
     [Errorf ''mkdir %q: %w'' [Str (Join [absRoot, ''.pivot_root'']), Wrapped e],
      Errorf ''mount --bind %q onto itself: %w'' [Str absRoot, Wrapped e],
      Errorf ''pivot_root(%q, %q): %w''
        [Str absRoot, Str (Join [absRoot, ''.pivot_root'']), Wrapped e],
      Errorf ''chdir / after pivot: %w'' [Wrapped e],
      Errorf ''unmount %q: %w'' [Str ''/.pivot_root'', Wrapped e],
      Errorf ''removeAll %q: %w'' [Str ''/.pivot_root'', Wrapped e]] ! i"

text \<open>
  The cgroup directory of a process, the four file-system operations of the resource
  limiter, and the error it returns when the operation at position \<open>i\<close> fails.
\<close>

definition cgroupPath :: "int \<Rightarrow> string" where
  "cgroupPath pid = Join [''/sys/fs/cgroup/memory'', ''mini_'' @ Itoa pid]"

definition limiterCalls :: "int \<Rightarrow> int64 \<Rightarrow> call list" where
  "limiterCalls pid limitBytes =
     [Stat ''/sys/fs/cgroup/memory'',
      Mkdir (cgroupPath pid) (perm 7 5 5),
      WriteFile (Join [cgroupPath pid, ''memory.limit_in_bytes'']) (Itoa (sint limitBytes))
        (perm 6 4 4),
      WriteFile (Join [cgroupPath pid, ''cgroup.procs'']) (Itoa pid) (perm 6 4 4)]"

definition limiterError :: "int \<Rightarrow> nat \<Rightarrow> error \<Rightarrow> error" where
  "limiterError pid i e =
     [Errorf ''%q not found or not accessible: %w'' [Str ''/sys/fs/cgroup/memory'', Wrapped e],
      Errorf ''mkdir %q: %w'' [Str (cgroupPath pid), Wrapped e],
      Errorf ''write %q: %w'' [Str (Join [cgroupPath pid, ''memory.limit_in_bytes'']), Wrapped e],
      Errorf ''write %q: %w'' [Str (Join [cgroupPath pid, ''cgroup.procs'']), Wrapped e]] ! i"





text \<open>The events that are waits for a child.\<close>

definition isWait :: "event \<Rightarrow> bool" where
  "isWait ev = (case ev of Call (Wait pid) \<Rightarrow> True | _ \<Rightarrow> False)"

section \<open>A small machine to run the model on\<close>

text \<open>
  A world that remembers the paths that were created. The calls listed in \<open>bad\<close> fail,
  every other call succeeds; the child gets process id 4242 and ends in state \<open>ps\<close>, and
  the command line parses to the flags \<open>f\<close>.
\<close>

definition toyEffect :: "call \<Rightarrow> string list \<Rightarrow> string list" where
  "toyEffect c w =
     (case c of
        MkdirAll path m \<Rightarrow> w @ [path]
      | Mkdir path m \<Rightarrow> w @ [path]
      | WriteFile path d m \<Rightarrow> w @ [path]
      | RemoveAll path \<Rightarrow> removeAll path w
      | _ \<Rightarrow> w)"

definition toy :: "call list \<Rightarrow> pstate \<Rightarrow> flags \<Rightarrow> string list platform" where
  "toy bad ps f =
     \<lparr>sys = (\<lambda>c w. if c \<in> set bad then (Some (OSError ''denied''), w) else (None, toyEffect c w)),
      sysPath = (\<lambda>c w. if c \<in> set bad then (Inl (OSError ''not found''), w)
                 else (Inr (case c of Abs path \<Rightarrow> path | LookPath n \<Rightarrow> ''/bin/'' @ n | _ \<Rightarrow> []), w)),
      sysStart = (\<lambda>c w. if c \<in> set bad then (Inl (OSError ''denied''), w) else (Inr 4242, w)),
      sysWait = (\<lambda>c w. if c \<in> set bad then (Inl (OSError ''interrupted''), w) else (Inr ps, w)),
      flagParse = (\<lambda>a. Flags f)\<rparr>"

definition start0 :: "string list state" where
  "start0 = \<lparr>world = [], trace = []\<rparr>"

definition initProc :: proc where
  "initProc =
     \<lparr>args = [''minictr'', ''init''],
      environ = [''ROOTFS=/srv/rootfs'', ''MEMLIMIT='', ''HOSTNAME=box'']\<rparr>"

definition runProc :: proc where
  "runProc =
     \<lparr>args = [''minictr'', ''--rootfs'', ''/srv/rootfs'', ''/bin/sh''],
      environ = [''PATH=/bin'']\<rparr>"

definition flags0 :: flags where
  "flags0 = \<lparr>rootfs = ''/srv/rootfs'', memLimit = ''100m'', hostname = ''mini-container'',
     remaining = [''/bin/sh'']\<rparr>"

lemmas toy_eval = toy_def toyEffect_def start0_def syscall_def pathcall_def record_event_def

section \<open>Properties of the memory-limit parser\<close>

lemmas trim_eval = TrimSpace_def trimLeft.simps trimRight.simps leadingSpace_def
  trailingSpace_def spaceEncodings_def

lemmas parse_eval = Let_def parseMemLimit_def parseScaled_def ParseInt_def ParseUint_def
  isDigit_def digitVal_def stringOfByte_def

lemmas spec_eval = specBytes_def numericPrefix_def isUnit_def unitMultiplier_def
  decimalValue_def digitsValue_def unsignedPart_def digitVal_def

subsection \<open>What an accepted string denotes\<close>

lemma parseUintLoop_value:
  "parseUintLoop n cs = Inr m \<Longrightarrow>
     m = foldl (\<lambda>a c. 10 * a + digitVal c) n cs \<and> list_all isDigit cs"
  by (induction cs arbitrary: n) (auto split: if_splits simp: mult.commute)

lemma ParseUint_value:
  "ParseUint s = Inr m \<Longrightarrow> m = digitsValue s \<and> s \<noteq> [] \<and> list_all isDigit s"
  by (auto simp: ParseUint_def digitsValue_def split: if_splits dest: parseUintLoop_value)

lemma sint_of_nat_small:
  assumes "n < 2 ^ 63"
  shows "sint (of_nat n :: int64) = int n"
proof -
  from assms have "int n < 2 ^ 63"
    by (metis of_nat_less_iff of_nat_numeral of_nat_power)
  then have "signed_take_bit 63 (int n) = int n"
    by (intro signed_take_bit_int_eq_self) auto
  then show ?thesis by (simp add: signed_of_nat)
qed

lemma sint_neg_of_nat_small:
  assumes "n \<le> 2 ^ 63"
  shows "sint (- of_nat n :: int64) = - int n"
proof -
  from assms have "int n \<le> 2 ^ 63"
    by (metis of_nat_le_iff of_nat_numeral of_nat_power)
  then have "signed_take_bit 63 (- int n) = - int n"
    by (intro signed_take_bit_int_eq_self) auto
  moreover have "(- of_nat n :: int64) = word_of_int (- int n)" by simp
  ultimately show ?thesis by (simp only: sint_sbintrunc') simp
qed

lemma ParseInt_value:
  assumes "ParseInt s = Inr w"
  shows "sint w = decimalValue s \<and> wellFormedDecimal s"
proof (cases s)
  case Nil
  with assms show ?thesis by (simp add: ParseInt_def)
next
  case (Cons c cs)
  show ?thesis
  proof (cases "c = CHR ''-''")
    case True
    with assms Cons obtain un where u: "ParseUint cs = Inr un" "un \<le> 2 ^ 63" "w = - of_nat un"
      by (auto simp: ParseInt_def split: sum.splits if_splits)
    from ParseUint_value [OF u(1)] u(2,3) Cons True show ?thesis
      by (simp add: decimalValue_def wellFormedDecimal_def unsignedPart_def sint_neg_of_nat_small)
  next
    case False
    with assms Cons obtain un where
      u: "ParseUint (unsignedPart s) = Inr un" "un < 2 ^ 63" "w = of_nat un"
      by (auto simp: ParseInt_def unsignedPart_def split: sum.splits if_splits)
    from ParseUint_value [OF u(1)] u(2,3) Cons False show ?thesis
      by (simp add: decimalValue_def wellFormedDecimal_def sint_of_nat_small)
  qed
qed

lemma parseScaled_value:
  assumes "parseScaled mult t = Ok n"
  shows "sint n = signed_take_bit 63 (decimalValue t * sint mult) \<and> wellFormedDecimal t"
proof -
  from assms obtain b where b: "ParseInt t = Inr b" "n = b * mult"
    by (auto simp: parseScaled_def split: sum.splits)
  from ParseInt_value [OF b(1)] b(2) show ?thesis
    by (simp add: sint_word_mult)
qed

lemma parseMemLimit_value:
  assumes "parseMemLimit s = Ok n"
  shows "sint n = signed_take_bit 63 (specBytes s) \<and>
    wellFormedDecimal (numericPrefix (TrimSpace s))"
proof -
  let ?t = "TrimSpace s"
  from assms have ne: "s \<noteq> []" "?t \<noteq> []"
    by (auto simp: parseMemLimit_def Let_def split: if_splits)
  have m: "parseScaled (word_of_int (unitMultiplier (last ?t))) (numericPrefix ?t) = Ok n"
    using assms ne
    by (auto simp: parseMemLimit_def Let_def unitMultiplier_def numericPrefix_def isUnit_def
        split: if_splits)
  have "sint (word_of_int (unitMultiplier (last ?t)) :: int64) = unitMultiplier (last ?t)"
    by (simp add: unitMultiplier_def)
  with parseScaled_value [OF m] show ?thesis by (simp add: specBytes_def)
qed

lemma TrimSpace_100m: "TrimSpace ''100m'' = ''100m''" by (simp add: trim_eval)
lemma TrimSpace_1g: "TrimSpace ''1g'' = ''1g''" by (simp add: trim_eval)
lemma TrimSpace_512k: "TrimSpace ''512k'' = ''512k''" by (simp add: trim_eval)
lemma TrimSpace_2048: "TrimSpace ''2048'' = ''2048''" by (simp add: trim_eval)
lemma TrimSpace_8EiB: "TrimSpace ''8589934592g'' = ''8589934592g''" by (simp add: trim_eval)

lemma parse_100m: "parseMemLimit ''100m'' = Ok 104857600"
  by (simp add: parse_eval TrimSpace_100m)

lemma parse_1g: "parseMemLimit ''1g'' = Ok 1073741824"
  by (simp add: parse_eval TrimSpace_1g)

lemma parse_512k: "parseMemLimit ''512k'' = Ok 524288"
  by (simp add: parse_eval TrimSpace_512k)

lemma parse_2048: "parseMemLimit ''2048'' = Ok 2048"
  by (simp add: parse_eval TrimSpace_2048)

text \<open>
  C3, as the specification states it: the byte count of every accepted string is the
  numeric prefix times the unit multiplier, exactly. That fails where the product leaves
  64 bits: \<open>8589934592g\<close> is accepted, its product is \<open>2 ^ 63\<close>, and the parser returns
  \<open>- 2 ^ 63\<close>.
\<close>

theorem parseMemLimit_overflow_counterexample:
  "parseMemLimit ''8589934592g'' = Ok 9223372036854775808 \<and>
   sint (9223372036854775808 :: int64) = - 9223372036854775808 \<and>
   specBytes ''8589934592g'' = 9223372036854775808 \<and>
   sint (9223372036854775808 :: int64) \<noteq> specBytes ''8589934592g''"
proof -
  have a: "parseMemLimit ''8589934592g'' = Ok 9223372036854775808"
    by (simp add: parse_eval TrimSpace_8EiB)
  have b: "sint (9223372036854775808 :: int64) = - 9223372036854775808" by simp
  have c: "specBytes ''8589934592g'' = 9223372036854775808"
    by (simp add: spec_eval TrimSpace_8EiB)
  from a b c show ?thesis by simp
qed

text \<open>
  C3, amended: for every accepted string the numeric prefix is a decimal numeral with an
  optional sign, and the byte count is the prefix times the unit multiplier (k/K 1024, m/M
  1024 squared, g/G 1024 cubed, a final digit 1) reduced to a signed 64-bit integer; it is the exact
  product whenever the product is in the range of a signed 64-bit integer. In particular
  \<open>100m\<close> gives 104857600, \<open>1g\<close> 1073741824, \<open>512k\<close> 524288 and \<open>2048\<close> 2048.
\<close>

theorem parseMemLimit_product:
  "(parseMemLimit s = Ok n \<longrightarrow>
      wellFormedDecimal (numericPrefix (TrimSpace s)) \<and>
      sint n = signed_take_bit 63 (specBytes s) \<and>
      (- (2 ^ 63) \<le> specBytes s \<and> specBytes s < 2 ^ 63 \<longrightarrow> sint n = specBytes s)) \<and>
   parseMemLimit ''100m'' = Ok 104857600 \<and>
   parseMemLimit ''1g'' = Ok 1073741824 \<and>
   parseMemLimit ''512k'' = Ok 524288 \<and>
   parseMemLimit ''2048'' = Ok 2048"
proof -
  have "sint n = specBytes s"
    if "parseMemLimit s = Ok n" "- (2 ^ 63) \<le> specBytes s" "specBytes s < 2 ^ 63"
    using parseMemLimit_value [OF that(1)] that(2,3)
    by (simp add: signed_take_bit_int_eq_self)
  then show ?thesis
    using parseMemLimit_value [of s n] parse_100m parse_1g parse_512k parse_2048 by blast
qed

theorem parseMemLimit_product_witness:
  "parseMemLimit ''512k'' = Ok 524288 \<and>
   numericPrefix (TrimSpace ''512k'') = ''512'' \<and>
   specBytes ''512k'' = 524288 \<and>
   sint (524288 :: int64) = specBytes ''512k''"
proof -
  have a: "parseMemLimit ''512k'' = Ok 524288" by (rule parse_512k)
  have b: "specBytes ''512k'' = 524288" by (simp add: spec_eval TrimSpace_512k)
  have c: "numericPrefix (TrimSpace ''512k'') = ''512''"
    by (simp add: numericPrefix_def isUnit_def TrimSpace_512k)
  from parseMemLimit_product [of "''512k''" 524288] a b c show ?thesis by simp
qed

subsection \<open>Where the parser does not return\<close>

lemma parseMemLimit_Panic_iff:
  "(\<exists>m. parseMemLimit s = Panic m) \<longleftrightarrow> s \<noteq> [] \<and> TrimSpace s = []"
  by (auto simp: parseMemLimit_def parseScaled_def Let_def split: sum.splits)

lemma parseMemLimit_empty: "parseMemLimit [] = Err (Errorf ''empty memory limit'' [])"
  by (simp add: parseMemLimit_def)

lemma parseMemLimit_100x:
  "parseMemLimit ''100x'' = Err (Errorf ''invalid memory limit suffix %q'' [Str ''x''])"
  by (simp add: parse_eval trim_eval)

lemma parseMemLimit_abc:
  "parseMemLimit ''abc'' = Err (Errorf ''invalid memory limit suffix %q'' [Str ''c''])"
  by (simp add: parse_eval trim_eval)

lemma stringOfByte_high: "stringOfByte (CHR 0xE9) = [CHR 0xC3, CHR 0xA9]"
proof -
  have "char_of (195 :: nat) = CHR 0xC3" "char_of (169 :: nat) = CHR 0xA9" by code_simp+
  then show ?thesis by (simp add: stringOfByte_def)
qed

lemma parseMemLimit_errors_distinct:
  "parseMemLimit [] \<noteq> parseMemLimit ''100x'' \<and> parseMemLimit [] \<noteq> parseMemLimit ''abc'' \<and>
   parseMemLimit ''100x'' \<noteq> parseMemLimit ''abc''"
  by (simp add: parseMemLimit_empty parseMemLimit_100x parseMemLimit_abc)

text \<open>
  C4: the parser is to return a byte count or an error for every string. It tests for the
  empty string before it trims, so a non-empty string of white space only passes the
  test, is trimmed to nothing, and the read of its last byte panics: here for a single
  blank.
\<close>

theorem parseMemLimit_blank_panics:
  "parseMemLimit '' '' = Panic ''runtime error: index out of range [-1]''"
  by (simp add: parse_eval trim_eval)

section \<open>Properties of the calls and of sequences of calls\<close>

lemma syscall_trace: "syscall K c st = (r, st') \<Longrightarrow> trace st' = trace st @ [Call c]"
  by (auto simp: syscall_def record_event_def split: prod.splits)

lemma pathcall_trace: "pathcall K c st = (r, st') \<Longrightarrow> trace st' = trace st @ [Call c]"
  by (auto simp: pathcall_def record_event_def split: prod.splits)

lemma runSteps_trace:
  "runSteps K cs st = (r, st') \<Longrightarrow>
     trace st' = trace st @ map Call (take (case r of None \<Rightarrow> length cs | Some (i, e) \<Rightarrow> Suc i) cs)
     \<and> (case r of None \<Rightarrow> True | Some (i, e) \<Rightarrow> i < length cs)"
proof (induction cs arbitrary: st r st')
  case Nil
  then show ?case by simp
next
  case (Cons c cs)
  obtain r1 st1 where s: "syscall K c st = (r1, st1)" by (cases "syscall K c st")
  show ?case
  proof (cases r1)
    case (Some e)
    with Cons.prems s syscall_trace [OF s] show ?thesis by auto
  next
    case None
    obtain r2 st2 where t: "runSteps K cs st1 = (r2, st2)" by (cases "runSteps K cs st1")
    from Cons.IH [OF t] Cons.prems s None t syscall_trace [OF s] show ?thesis
      by (cases r2) auto
  qed
qed

lemma runSteps_fails_iff:
  "runSteps K cs st = (Some (i, e), st') \<longleftrightarrow>
     (\<exists>stb. i < length cs \<and> runSteps K (take i cs) st = (None, stb) \<and>
        syscall K (cs ! i) stb = (Some e, st'))"
proof (induction cs arbitrary: st i)
  case Nil
  then show ?case by simp
next
  case (Cons c cs)
  obtain r1 st1 where s: "syscall K c st = (r1, st1)" by (cases "syscall K c st")
  show ?case
  proof (cases r1)
    case (Some e1)
    with s show ?thesis by (cases i) auto
  next
    case None
    show ?thesis
    proof (cases i)
      case 0
      with s None show ?thesis by (auto split: prod.splits option.splits)
    next
      case (Suc j)
      with s None Cons.IH [of st1 j] show ?thesis
        by (auto split: prod.splits option.splits)
    qed
  qed
qed

lemma pivotRoot_runSteps:
  "pivotRoot K newRoot st =
     (case pathcall K (Abs newRoot) st of
        (Inl e, st1) \<Rightarrow>
          (Some (Errorf ''failed to get absolute path of newRoot %q: %w''
             [Str newRoot, Wrapped e]), st1)
      | (Inr absRoot, st1) \<Rightarrow>
          (case runSteps K (pivotCalls absRoot) st1 of
             (None, st2) \<Rightarrow> (None, st2)
           | (Some (i, e), st2) \<Rightarrow> (Some (pivotError absRoot i e), st2)))"
  by (simp add: pivotRoot_def pivotCalls_def pivotError_def Let_def
      split: prod.splits option.splits sum.splits)

lemma applyMemoryCgroupLimit_runSteps:
  "applyMemoryCgroupLimit K pid limitBytes st =
     (case runSteps K (limiterCalls pid limitBytes) st of
        (None, st1) \<Rightarrow> (None, st1)
      | (Some (i, e), st1) \<Rightarrow> (Some (limiterError pid i e), st1))"
  by (simp add: applyMemoryCgroupLimit_def limiterCalls_def limiterError_def cgroupPath_def Let_def
      split: prod.splits option.splits)

section \<open>Properties of the container initializer\<close>

lemma pivotRoot_prefix:
  "\<exists>n absRoot. 1 \<le> n \<and> n \<le> 7 \<and>
      trace (snd (pivotRoot K newRoot st)) =
        trace st @ map Call (take n (Abs newRoot # pivotCalls absRoot)) \<and>
      (fst (pivotRoot K newRoot st) = None \<longrightarrow> n = 7)"
proof -
  obtain a st1 where p: "pathcall K (Abs newRoot) st = (a, st1)"
    by (cases "pathcall K (Abs newRoot) st")
  note t1 = pathcall_trace [OF p]
  show "\<exists>n absRoot. 1 \<le> n \<and> n \<le> 7 \<and>
      trace (snd (pivotRoot K newRoot st)) =
        trace st @ map Call (take n (Abs newRoot # pivotCalls absRoot)) \<and>
      (fst (pivotRoot K newRoot st) = None \<longrightarrow> n = 7)"
  proof (cases a)
    case (Inl e)
    with p t1 have "trace (snd (pivotRoot K newRoot st)) =
        trace st @ map Call (take 1 (Abs newRoot # pivotCalls [])) \<and>
      fst (pivotRoot K newRoot st) \<noteq> None"
      by (simp add: pivotRoot_runSteps)
    then show ?thesis by (intro exI [of _ 1] exI [of _ "[]"]) simp
  next
    case (Inr absRoot)
    obtain r st2 where q: "runSteps K (pivotCalls absRoot) st1 = (r, st2)"
      by (cases "runSteps K (pivotCalls absRoot) st1")
    note t2 = runSteps_trace [OF q]
    have len: "length (pivotCalls absRoot) = 6" by (simp add: pivotCalls_def)
    show ?thesis
    proof (cases r)
      case None
      with p Inr q t1 t2 len have "trace (snd (pivotRoot K newRoot st)) =
          trace st @ map Call (take 7 (Abs newRoot # pivotCalls absRoot))"
        by (simp add: pivotRoot_runSteps)
      then show ?thesis by (intro exI [of _ 7] exI [of _ absRoot]) simp
    next
      case (Some ie)
      obtain i e where ie: "ie = (i, e)" by (cases ie)
      with Some p Inr q t1 t2 len have "trace (snd (pivotRoot K newRoot st)) =
          trace st @ map Call (take (Suc (Suc i)) (Abs newRoot # pivotCalls absRoot)) \<and>
          i < 6 \<and> fst (pivotRoot K newRoot st) \<noteq> None"
        by (simp add: pivotRoot_runSteps)
      then show ?thesis by (intro exI [of _ "Suc (Suc i)"] exI [of _ absRoot]) auto
    qed
  qed
qed

lemma containerInit_pivot_failure:
  assumes r: "Getenv (environ p) ''ROOTFS'' = newRoot" "newRoot \<noteq> []"
    and h: "(if Getenv (environ p) ''HOSTNAME'' \<noteq> []
          then syscall K (Sethostname (Getenv (environ p) ''HOSTNAME'')) s0
          else (None, s0)) = (None, s1)"
    and m: "syscall K (Mount [] ''/'' [] (MS_PRIVATE OR MS_REC) []) s1 = (None, st)"
    and pv: "pivotRoot K newRoot st = (Some e, st')"
  shows "containerInit K p s0 = (InitError (Errorf ''pivotRoot: %w'' [Wrapped e]), st')"
proof (cases "Getenv (environ p) ''HOSTNAME'' = []")
  case True
  with h have "s1 = s0" by simp
  with True r m pv show ?thesis by (simp add: containerInit_def)
next
  case False
  with h have "syscall K (Sethostname (Getenv (environ p) ''HOSTNAME'')) s0 = (None, s1)"
    by simp
  with False r m pv show ?thesis by (simp add: containerInit_def)
qed

text \<open>
  C1: the pivot sequence. \<open>pivotRoot\<close> resolves the new root to an absolute path, and when
  that fails returns its error with no further call. Otherwise it runs, in this order and
  each only when all before it succeeded, the steps of \<open>pivotCalls\<close>: create the directory
  \<open>.pivot_root\<close> inside the new root, bind-mount the new root onto itself recursively
  (\<open>MS_BIND OR MS_REC\<close>), swap the roots with the old root put at that directory, change
  the working directory to \<open>/\<close>, unmount \<open>/.pivot_root\<close> detached (\<open>MNT_DETACH\<close>), remove
  \<open>/.pivot_root\<close>. The first step that fails ends the sequence: \<open>pivotRoot\<close> returns the
  error of that step in the state the failed call left. So the calls of every run are the
  first \<open>n\<close> of the seven, and all seven when it returns no error. And the failure is
  fatal: when the initializer has come to the pivot sequence and a step of it fails,
  \<open>containerInit\<close> returns that error in the state the failed step left, with no call
  after it, and \<open>main\<close> logs it and ends the process with status 1.
\<close>

theorem pivotRoot_sequence:
  "pivotRoot K newRoot st =
     (case pathcall K (Abs newRoot) st of
        (Inl e, st1) \<Rightarrow>
          (Some (Errorf ''failed to get absolute path of newRoot %q: %w''
             [Str newRoot, Wrapped e]), st1)
      | (Inr absRoot, st1) \<Rightarrow>
          (case runSteps K (pivotCalls absRoot) st1 of
             (None, st2) \<Rightarrow> (None, st2)
           | (Some (i, e), st2) \<Rightarrow> (Some (pivotError absRoot i e), st2))) \<and>
   (\<exists>n absRoot. 1 \<le> n \<and> n \<le> 7 \<and>
      trace (snd (pivotRoot K newRoot st)) =
        trace st @ map Call (take n (Abs newRoot # pivotCalls absRoot)) \<and>
      (fst (pivotRoot K newRoot st) = None \<longrightarrow> n = 7)) \<and>
   (Getenv (environ p) ''ROOTFS'' = newRoot \<and> newRoot \<noteq> [] \<and>
    (if Getenv (environ p) ''HOSTNAME'' \<noteq> []
     then syscall K (Sethostname (Getenv (environ p) ''HOSTNAME'')) s0
     else (None, s0)) = (None, s1) \<and>
    syscall K (Mount [] ''/'' [] (MS_PRIVATE OR MS_REC) []) s1 = (None, st) \<and>
    pivotRoot K newRoot st = (Some err, st') \<longrightarrow>
      containerInit K p s0 = (InitError (Errorf ''pivotRoot: %w'' [Wrapped err]), st') \<and>
      (initMode p \<longrightarrow>
         main K p s0 =
           (Fatal,
            \<lparr>world = world st',
             trace = trace st' @
               [Log ''container init failed: %v''
                  [Wrapped (Errorf ''pivotRoot: %w'' [Wrapped err])]]\<rparr>) \<and>
         exitStatus (fst (main K p s0)) = Some 1))"
proof (intro conjI impI)
  show "pivotRoot K newRoot st =
     (case pathcall K (Abs newRoot) st of
        (Inl e, st1) \<Rightarrow>
          (Some (Errorf ''failed to get absolute path of newRoot %q: %w''
             [Str newRoot, Wrapped e]), st1)
      | (Inr absRoot, st1) \<Rightarrow>
          (case runSteps K (pivotCalls absRoot) st1 of
             (None, st2) \<Rightarrow> (None, st2)
           | (Some (i, e), st2) \<Rightarrow> (Some (pivotError absRoot i e), st2)))"
    by (rule pivotRoot_runSteps)
next
  show "\<exists>n absRoot. 1 \<le> n \<and> n \<le> 7 \<and>
      trace (snd (pivotRoot K newRoot st)) =
        trace st @ map Call (take n (Abs newRoot # pivotCalls absRoot)) \<and>
      (fst (pivotRoot K newRoot st) = None \<longrightarrow> n = 7)"
    by (rule pivotRoot_prefix)
next
  assume a: "Getenv (environ p) ''ROOTFS'' = newRoot \<and> newRoot \<noteq> [] \<and>
    (if Getenv (environ p) ''HOSTNAME'' \<noteq> []
     then syscall K (Sethostname (Getenv (environ p) ''HOSTNAME'')) s0
     else (None, s0)) = (None, s1) \<and>
    syscall K (Mount [] ''/'' [] (MS_PRIVATE OR MS_REC) []) s1 = (None, st) \<and>
    pivotRoot K newRoot st = (Some err, st')"
  then show ci: "containerInit K p s0 = (InitError (Errorf ''pivotRoot: %w'' [Wrapped err]), st')"
    by (blast intro: containerInit_pivot_failure)
  assume "initMode p"
  with ci show m: "main K p s0 =
           (Fatal,
            \<lparr>world = world st',
             trace = trace st' @
               [Log ''container init failed: %v''
                  [Wrapped (Errorf ''pivotRoot: %w'' [Wrapped err])]]\<rparr>)"
    by (simp add: main_def logFatalf_def logPrintf_def record_event_def)
  show "exitStatus (fst (main K p s0)) = Some 1"
    unfolding m by (simp add: exitStatus_def)
qed

theorem pivotRoot_sequence_witness:
  "pivotRoot (toy [] (Exited 0) flags0) ''/srv/rootfs'' start0 =
     (None, \<lparr>world = [''/srv/rootfs/.pivot_root''],
             trace = map Call
               [Abs ''/srv/rootfs'',
                MkdirAll ''/srv/rootfs/.pivot_root'' 448,
                Mount ''/srv/rootfs'' ''/srv/rootfs'' [] (MS_BIND OR MS_REC) [],
                PivotRoot ''/srv/rootfs'' ''/srv/rootfs/.pivot_root'',
                Chdir ''/'',
                Unmount ''/.pivot_root'' MNT_DETACH,
                RemoveAll ''/.pivot_root'']\<rparr>) \<and>
   initMode initProc \<and>
   main (toy [PivotRoot ''/srv/rootfs'' ''/srv/rootfs/.pivot_root''] (Exited 0) flags0)
       initProc start0 =
     (Fatal,
      \<lparr>world = [''/srv/rootfs/.pivot_root''],
       trace =
         [Call (Sethostname ''box''),
          Call (Mount [] ''/'' [] (MS_PRIVATE OR MS_REC) []),
          Call (Abs ''/srv/rootfs''),
          Call (MkdirAll ''/srv/rootfs/.pivot_root'' 448),
          Call (Mount ''/srv/rootfs'' ''/srv/rootfs'' [] (MS_BIND OR MS_REC) []),
          Call (PivotRoot ''/srv/rootfs'' ''/srv/rootfs/.pivot_root''),
          Log ''container init failed: %v''
            [Wrapped (Errorf ''pivotRoot: %w''
               [Wrapped (Errorf ''pivot_root(%q, %q): %w''
                  [Str ''/srv/rootfs'', Str ''/srv/rootfs/.pivot_root'',
                   Wrapped (Os (OSError ''denied''))])])]]\<rparr>)"
proof -
  have j: "Join [''/srv/rootfs'', ''.pivot_root''] = ''/srv/rootfs/.pivot_root''"
    by (simp add: Join_def Clean_def)
  let ?K = "toy [PivotRoot ''/srv/rootfs'' ''/srv/rootfs/.pivot_root''] (Exited 0) flags0"
  let ?s1 = "\<lparr>world = [], trace = [Call (Sethostname ''box'')]\<rparr> :: string list state"
  let ?s2 = "\<lparr>world = [],
    trace = [Call (Sethostname ''box''), Call (Mount [] ''/'' [] (MS_PRIVATE OR MS_REC) [])]\<rparr>
    :: string list state"
  let ?err = "Errorf ''pivot_root(%q, %q): %w''
    [Str ''/srv/rootfs'', Str ''/srv/rootfs/.pivot_root'', Wrapped (Os (OSError ''denied''))]"
  let ?s3 = "\<lparr>world = [''/srv/rootfs/.pivot_root''],
       trace =
         [Call (Sethostname ''box''),
          Call (Mount [] ''/'' [] (MS_PRIVATE OR MS_REC) []),
          Call (Abs ''/srv/rootfs''),
          Call (MkdirAll ''/srv/rootfs/.pivot_root'' 448),
          Call (Mount ''/srv/rootfs'' ''/srv/rootfs'' [] (MS_BIND OR MS_REC) []),
          Call (PivotRoot ''/srv/rootfs'' ''/srv/rootfs/.pivot_root'')]\<rparr>"
  have ok: "pivotRoot (toy [] (Exited 0) flags0) ''/srv/rootfs'' start0 =
     (None, \<lparr>world = [''/srv/rootfs/.pivot_root''],
             trace = map Call
               [Abs ''/srv/rootfs'',
                MkdirAll ''/srv/rootfs/.pivot_root'' 448,
                Mount ''/srv/rootfs'' ''/srv/rootfs'' [] (MS_BIND OR MS_REC) [],
                PivotRoot ''/srv/rootfs'' ''/srv/rootfs/.pivot_root'',
                Chdir ''/'',
                Unmount ''/.pivot_root'' MNT_DETACH,
                RemoveAll ''/.pivot_root'']\<rparr>)"
    using pivotRoot_sequence [of "toy [] (Exited 0) flags0" "''/srv/rootfs''" start0,
        THEN conjunct1]
    by (simp add: toy_def toyEffect_def start0_def syscall_def pathcall_def record_event_def
        pivotCalls_def pivotError_def j perm_def)
  have im: "initMode initProc" by (simp add: initMode_def initProc_def)
  have r: "Getenv (environ initProc) ''ROOTFS'' = ''/srv/rootfs''"
    by (simp add: initProc_def Getenv_def)
  have h: "Getenv (environ initProc) ''HOSTNAME'' = ''box''"
    by (simp add: initProc_def Getenv_def)
  have s1: "(if Getenv (environ initProc) ''HOSTNAME'' \<noteq> []
     then syscall ?K (Sethostname (Getenv (environ initProc) ''HOSTNAME'')) start0
     else (None, start0)) = (None, ?s1)"
    by (simp add: h toy_def toyEffect_def start0_def syscall_def record_event_def)
  have s2: "syscall ?K (Mount [] ''/'' [] (MS_PRIVATE OR MS_REC) []) ?s1 = (None, ?s2)"
    by (simp add: toy_def toyEffect_def syscall_def record_event_def)
  have s3: "pivotRoot ?K ''/srv/rootfs'' ?s2 = (Some ?err, ?s3)"
    using pivotRoot_sequence [of ?K "''/srv/rootfs''" ?s2, THEN conjunct1]
    by (simp add: toy_def toyEffect_def syscall_def pathcall_def record_event_def
        pivotCalls_def pivotError_def j perm_def)
  from pivotRoot_sequence [of ?K "''/srv/rootfs''" ?s2 initProc start0 ?s1 ?err ?s3,
      THEN conjunct2, THEN conjunct2] r s1 s2 s3 im
  have "main ?K initProc start0 =
     (Fatal,
      \<lparr>world = world ?s3,
       trace = trace ?s3 @
         [Log ''container init failed: %v'' [Wrapped (Errorf ''pivotRoot: %w'' [Wrapped ?err])]]\<rparr>)"
    by simp
  with ok im show ?thesis by simp
qed

lemma logPrintf_trace: "trace (logPrintf fmt as st) = trace st @ [Log fmt as]"
  by (simp add: logPrintf_def record_event_def)





text \<open>An environment with no entry for a key gives the empty string, as one whose entry
  is empty does.\<close>

lemma Getenv_missing:
  "list_all (\<lambda>e. takeWhile (\<lambda>c. c \<noteq> CHR ''='') e \<noteq> key) envs \<Longrightarrow> Getenv envs key = []"
  by (auto simp: Getenv_def find_Some_iff list_all_iff split: option.splits)

text \<open>
  C6: when the environment gives no root file system, the entry missing or empty,
  \<open>containerInit\<close> returns the error \<open>ROOTFS not set\<close> in the state it started in: it
  has made no call at all, so it has set no host name and mounted nothing; and \<open>main\<close>,
  in initializer mode, logs that error and ends fatally with nothing else done.
\<close>

theorem init_missing_rootfs_fails_first:
  "Getenv (environ p) ''ROOTFS'' = [] \<Longrightarrow>
     containerInit K p st = (InitError (Errorf ''ROOTFS not set'' []), st) \<and>
     (initMode p \<longrightarrow>
        main K p st =
          (Fatal,
           \<lparr>world = world st,
            trace = trace st @
              [Log ''container init failed: %v'' [Wrapped (Errorf ''ROOTFS not set'' [])]]\<rparr>))"
  by (simp add: containerInit_def main_def logFatalf_def logPrintf_def record_event_def)

theorem init_missing_rootfs_fails_first_witness:
  "Getenv [''HOSTNAME=box''] ''ROOTFS'' = [] \<and>
   Getenv [''ROOTFS='', ''HOSTNAME=box''] ''ROOTFS'' = [] \<and>
   main (toy [] (Exited 0) flags0)
        \<lparr>args = [''minictr'', ''init'', ''/bin/sh''], environ = [''HOSTNAME=box'']\<rparr> start0 =
     (Fatal,
      \<lparr>world = [],
       trace = [Log ''container init failed: %v'' [Wrapped (Errorf ''ROOTFS not set'' [])]]\<rparr>) \<and>
   containerInit (toy [] (Exited 0) flags0)
        \<lparr>args = [''minictr'', ''init'', ''/bin/sh''], environ = [''ROOTFS='', ''HOSTNAME=box'']\<rparr>
        start0 =
     (InitError (Errorf ''ROOTFS not set'' []), start0)"
proof -
  have a: "Getenv [''HOSTNAME=box''] ''ROOTFS'' = []" by (simp add: Getenv_def)
  have b: "Getenv [''ROOTFS='', ''HOSTNAME=box''] ''ROOTFS'' = []" by (simp add: Getenv_def)
  have i: "initMode \<lparr>args = [''minictr'', ''init'', ''/bin/sh''], environ = [''HOSTNAME=box'']\<rparr>"
    by (simp add: initMode_def)
  from init_missing_rootfs_fails_first
      [of "\<lparr>args = [''minictr'', ''init'', ''/bin/sh''], environ = [''HOSTNAME=box'']\<rparr>"
         "toy [] (Exited 0) flags0" start0]
    init_missing_rootfs_fails_first
      [of "\<lparr>args = [''minictr'', ''init'', ''/bin/sh''],
            environ = [''ROOTFS='', ''HOSTNAME=box'']\<rparr>"
         "toy [] (Exited 0) flags0" start0]
    a b i
  show ?thesis by (simp add: start0_def)
qed





section \<open>Properties of the resource limiter\<close>

lemma cgroupPath_4242: "cgroupPath 4242 = ''/sys/fs/cgroup/memory/mini_4242''"
  by (simp add: cgroupPath_def Itoa_def natString.simps digitChar_def Join_def Clean_def)

lemma limitPath_4242:
  "Join [''/sys/fs/cgroup/memory/mini_4242'', ''memory.limit_in_bytes''] =
     ''/sys/fs/cgroup/memory/mini_4242/memory.limit_in_bytes''"
  by (simp add: Join_def Clean_def)

lemma procsPath_4242:
  "Join [''/sys/fs/cgroup/memory/mini_4242'', ''cgroup.procs''] =
     ''/sys/fs/cgroup/memory/mini_4242/cgroup.procs''"
  by (simp add: Join_def Clean_def)

lemma Itoa_4242: "Itoa 4242 = ''4242''"
  by (simp add: Itoa_def natString.simps digitChar_def)

lemma Itoa_100m: "Itoa 104857600 = ''104857600''"
  by (simp add: Itoa_def natString.simps digitChar_def)

lemmas limiter_eval = limiterCalls_def limiterError_def cgroupPath_4242 limitPath_4242
  procsPath_4242 Itoa_4242 Itoa_100m perm_def


text \<open>
  C5: for every process id and byte limit, on every platform, the limiter runs the four
  operations of \<open>limiterCalls\<close> in their order, each only when all before it succeeded:
  it looks the hierarchy up, creates the directory \<open>cgroupPath pid\<close> (a function of the
  process id alone), writes the byte limit in decimal into \<open>memory.limit_in_bytes\<close>, and
  then writes the process id into \<open>cgroup.procs\<close>. The calls of every run are the first
  \<open>n\<close> of the four, so the membership file is written only after the limit file was
  written with success.
\<close>

theorem limiter_limit_before_membership:
  "applyMemoryCgroupLimit K pid limitBytes st =
     (case runSteps K (limiterCalls pid limitBytes) st of
        (None, st1) \<Rightarrow> (None, st1)
      | (Some (i, e), st1) \<Rightarrow> (Some (limiterError pid i e), st1)) \<and>
   (\<exists>n. 1 \<le> n \<and> n \<le> 4 \<and>
      trace (snd (applyMemoryCgroupLimit K pid limitBytes st)) =
        trace st @ map Call (take n (limiterCalls pid limitBytes)) \<and>
      (fst (applyMemoryCgroupLimit K pid limitBytes st) = None \<longrightarrow> n = 4)) \<and>
   limiterCalls pid limitBytes ! 1 = Mkdir (cgroupPath pid) (perm 7 5 5) \<and>
   limiterCalls pid limitBytes ! 2 =
     WriteFile (Join [cgroupPath pid, ''memory.limit_in_bytes'']) (Itoa (sint limitBytes))
       (perm 6 4 4) \<and>
   limiterCalls pid limitBytes ! 3 =
     WriteFile (Join [cgroupPath pid, ''cgroup.procs'']) (Itoa pid) (perm 6 4 4)"
proof -
  obtain r st1 where q: "runSteps K (limiterCalls pid limitBytes) st = (r, st1)"
    by (cases "runSteps K (limiterCalls pid limitBytes) st")
  note t = runSteps_trace [OF q]
  have len: "length (limiterCalls pid limitBytes) = 4" by (simp add: limiterCalls_def)
  have "\<exists>n. 1 \<le> n \<and> n \<le> 4 \<and>
      trace (snd (applyMemoryCgroupLimit K pid limitBytes st)) =
        trace st @ map Call (take n (limiterCalls pid limitBytes)) \<and>
      (fst (applyMemoryCgroupLimit K pid limitBytes st) = None \<longrightarrow> n = 4)"
  proof (cases r)
    case None
    with q t len show ?thesis
      by (intro exI [of _ 4]) (simp add: applyMemoryCgroupLimit_runSteps)
  next
    case (Some ie)
    obtain i e where "ie = (i, e)" by (cases ie)
    with Some q t len show ?thesis
      by (intro exI [of _ "Suc i"]) (auto simp: applyMemoryCgroupLimit_runSteps)
  qed
  then show ?thesis
    by (simp add: applyMemoryCgroupLimit_runSteps [symmetric]) (simp add: limiterCalls_def)
qed

theorem limiter_limit_before_membership_witness:
  "applyMemoryCgroupLimit (toy [] (Exited 0) flags0) 4242 104857600 start0 =
     (None,
      \<lparr>world =
         [''/sys/fs/cgroup/memory/mini_4242'',
          ''/sys/fs/cgroup/memory/mini_4242/memory.limit_in_bytes'',
          ''/sys/fs/cgroup/memory/mini_4242/cgroup.procs''],
       trace = map Call
         [Stat ''/sys/fs/cgroup/memory'',
          Mkdir ''/sys/fs/cgroup/memory/mini_4242'' 493,
          WriteFile ''/sys/fs/cgroup/memory/mini_4242/memory.limit_in_bytes'' ''104857600'' 420,
          WriteFile ''/sys/fs/cgroup/memory/mini_4242/cgroup.procs'' ''4242'' 420]\<rparr>)"
proof -
  note eq = limiter_limit_before_membership
    [of "toy [] (Exited 0) flags0" 4242 104857600 start0, THEN conjunct1]
  show ?thesis unfolding eq by (simp add: limiter_eval toy_eval)
qed

text \<open>
  C9: the limiter returns an error exactly when one of its four operations fails after
  all before it succeeded, and then it returns the error of that operation in the very
  state the failed call left: no further call is made, nothing is undone. When the
  hierarchy is not found the error says so. Whatever happens, the limiter makes no call
  but those four: it mounts nothing and removes nothing.
\<close>

theorem limiter_failure_keeps_state:
  "(applyMemoryCgroupLimit K pid limitBytes st = (Some err, st') \<longleftrightarrow>
      (\<exists>i e stb. i < 4 \<and>
         runSteps K (take i (limiterCalls pid limitBytes)) st = (None, stb) \<and>
         syscall K (limiterCalls pid limitBytes ! i) stb = (Some e, st') \<and>
         err = limiterError pid i e)) \<and>
   (syscall K (Stat ''/sys/fs/cgroup/memory'') st = (Some e0, st0) \<longrightarrow>
      applyMemoryCgroupLimit K pid limitBytes st =
        (Some (Errorf ''%q not found or not accessible: %w''
           [Str ''/sys/fs/cgroup/memory'', Wrapped e0]), st0)) \<and>
   set (drop (length (trace st)) (trace (snd (applyMemoryCgroupLimit K pid limitBytes st))))
     \<subseteq> Call ` set (limiterCalls pid limitBytes)"
proof (intro conjI)
  have len: "length (limiterCalls pid limitBytes) = 4" by (simp add: limiterCalls_def)
  obtain r st1 where q: "runSteps K (limiterCalls pid limitBytes) st = (r, st1)"
    by (cases "runSteps K (limiterCalls pid limitBytes) st")
  show "applyMemoryCgroupLimit K pid limitBytes st = (Some err, st') \<longleftrightarrow>
      (\<exists>i e stb. i < 4 \<and>
         runSteps K (take i (limiterCalls pid limitBytes)) st = (None, stb) \<and>
         syscall K (limiterCalls pid limitBytes ! i) stb = (Some e, st') \<and>
         err = limiterError pid i e)"
  proof
    assume a: "applyMemoryCgroupLimit K pid limitBytes st = (Some err, st')"
    with q obtain i e where ie: "r = Some (i, e)" "err = limiterError pid i e" "st1 = st'"
      by (cases r) (auto simp: applyMemoryCgroupLimit_runSteps)
    with q have "runSteps K (limiterCalls pid limitBytes) st = (Some (i, e), st')" by simp
    then obtain stb where "i < 4"
      "runSteps K (take i (limiterCalls pid limitBytes)) st = (None, stb)"
      "syscall K (limiterCalls pid limitBytes ! i) stb = (Some e, st')"
      using len by (auto simp: runSteps_fails_iff)
    with ie show "\<exists>i e stb. i < 4 \<and>
         runSteps K (take i (limiterCalls pid limitBytes)) st = (None, stb) \<and>
         syscall K (limiterCalls pid limitBytes ! i) stb = (Some e, st') \<and>
         err = limiterError pid i e" by blast
  next
    assume "\<exists>i e stb. i < 4 \<and>
         runSteps K (take i (limiterCalls pid limitBytes)) st = (None, stb) \<and>
         syscall K (limiterCalls pid limitBytes ! i) stb = (Some e, st') \<and>
         err = limiterError pid i e"
    then obtain i e stb where h: "i < 4"
      "runSteps K (take i (limiterCalls pid limitBytes)) st = (None, stb)"
      "syscall K (limiterCalls pid limitBytes ! i) stb = (Some e, st')"
      "err = limiterError pid i e" by blast
    with len have "runSteps K (limiterCalls pid limitBytes) st = (Some (i, e), st')"
      by (auto simp: runSteps_fails_iff)
    with h(4) show "applyMemoryCgroupLimit K pid limitBytes st = (Some err, st')"
      by (simp add: applyMemoryCgroupLimit_runSteps)
  qed
  show "syscall K (Stat ''/sys/fs/cgroup/memory'') st = (Some e0, st0) \<longrightarrow>
      applyMemoryCgroupLimit K pid limitBytes st =
        (Some (Errorf ''%q not found or not accessible: %w''
           [Str ''/sys/fs/cgroup/memory'', Wrapped e0]), st0)"
    by (simp add: applyMemoryCgroupLimit_def)
  from runSteps_trace [OF q]
  have "trace st1 = trace st @
      map Call (take (case r of None \<Rightarrow> length (limiterCalls pid limitBytes) | Some (i, e) \<Rightarrow> Suc i)
        (limiterCalls pid limitBytes))" by simp
  moreover have "snd (applyMemoryCgroupLimit K pid limitBytes st) = st1"
    using q by (cases r) (auto simp: applyMemoryCgroupLimit_runSteps)
  ultimately show
    "set (drop (length (trace st)) (trace (snd (applyMemoryCgroupLimit K pid limitBytes st))))
     \<subseteq> Call ` set (limiterCalls pid limitBytes)"
    by (auto dest: in_set_takeD)
qed

theorem limiter_failure_keeps_state_witness:
  "applyMemoryCgroupLimit
     (toy [WriteFile ''/sys/fs/cgroup/memory/mini_4242/memory.limit_in_bytes'' ''104857600'' 420]
        (Exited 0) flags0) 4242 104857600 start0 =
     (Some (Errorf ''write %q: %w''
        [Str ''/sys/fs/cgroup/memory/mini_4242/memory.limit_in_bytes'',
         Wrapped (Os (OSError ''denied''))]),
      \<lparr>world = [''/sys/fs/cgroup/memory/mini_4242''],
       trace = map Call
         [Stat ''/sys/fs/cgroup/memory'',
          Mkdir ''/sys/fs/cgroup/memory/mini_4242'' 493,
          WriteFile ''/sys/fs/cgroup/memory/mini_4242/memory.limit_in_bytes'' ''104857600'' 420]\<rparr>) \<and>
   applyMemoryCgroupLimit (toy [Stat ''/sys/fs/cgroup/memory''] (Exited 0) flags0)
       4242 104857600 start0 =
     (Some (Errorf ''%q not found or not accessible: %w''
        [Str ''/sys/fs/cgroup/memory'', Wrapped (Os (OSError ''denied''))]),
      \<lparr>world = [], trace = [Call (Stat ''/sys/fs/cgroup/memory'')]\<rparr>)"
proof -
  let ?bad = "[WriteFile ''/sys/fs/cgroup/memory/mini_4242/memory.limit_in_bytes''
    ''104857600'' 420]"
  let ?K = "toy ?bad (Exited 0) flags0"
  let ?stb = "\<lparr>world = [''/sys/fs/cgroup/memory/mini_4242''],
       trace = map Call
         [Stat ''/sys/fs/cgroup/memory'', Mkdir ''/sys/fs/cgroup/memory/mini_4242'' 493]\<rparr>"
  let ?st' = "\<lparr>world = [''/sys/fs/cgroup/memory/mini_4242''],
       trace = map Call
         [Stat ''/sys/fs/cgroup/memory'',
          Mkdir ''/sys/fs/cgroup/memory/mini_4242'' 493,
          WriteFile ''/sys/fs/cgroup/memory/mini_4242/memory.limit_in_bytes'' ''104857600'' 420]\<rparr>"
  have two: "take 2 (limiterCalls 4242 104857600) =
      [Stat ''/sys/fs/cgroup/memory'', Mkdir ''/sys/fs/cgroup/memory/mini_4242'' 493]"
    by (simp add: limiter_eval)
  have a: "runSteps ?K (take 2 (limiterCalls 4242 104857600)) start0 = (None, ?stb)"
    unfolding two by (simp add: toy_eval)
  have b: "syscall ?K (limiterCalls 4242 104857600 ! 2) ?stb =
      (Some (Os (OSError ''denied'')), ?st')"
    by (simp add: limiter_eval toy_eval)
  have c: "limiterError 4242 2 (Os (OSError ''denied'')) =
      Errorf ''write %q: %w''
        [Str ''/sys/fs/cgroup/memory/mini_4242/memory.limit_in_bytes'',
         Wrapped (Os (OSError ''denied''))]"
    by (simp add: limiter_eval)
  have "\<exists>i e stb. i < 4 \<and>
         runSteps ?K (take i (limiterCalls 4242 104857600)) start0 = (None, stb) \<and>
         syscall ?K (limiterCalls 4242 104857600 ! i) stb = (Some e, ?st') \<and>
         limiterError 4242 2 (Os (OSError ''denied'')) = limiterError 4242 i e"
    using a b by (intro exI [of _ 2] exI [of _ "Os (OSError ''denied'')"] exI [of _ ?stb]) simp
  with limiter_failure_keeps_state
    [of ?K 4242 104857600 start0 "limiterError 4242 2 (Os (OSError ''denied''))" ?st']
  have first: "applyMemoryCgroupLimit ?K 4242 104857600 start0 =
      (Some (limiterError 4242 2 (Os (OSError ''denied''))), ?st')" by blast
  let ?K0 = "toy [Stat ''/sys/fs/cgroup/memory''] (Exited 0) flags0"
  have d: "syscall ?K0 (Stat ''/sys/fs/cgroup/memory'') start0 =
      (Some (Os (OSError ''denied'')),
       \<lparr>world = [], trace = [Call (Stat ''/sys/fs/cgroup/memory'')]\<rparr>)"
    by (simp add: toy_eval)
  with limiter_failure_keeps_state [of ?K0 4242 104857600 start0]
  have second: "applyMemoryCgroupLimit ?K0 4242 104857600 start0 =
     (Some (Errorf ''%q not found or not accessible: %w''
        [Str ''/sys/fs/cgroup/memory'', Wrapped (Os (OSError ''denied''))]),
      \<lparr>world = [], trace = [Call (Stat ''/sys/fs/cgroup/memory'')]\<rparr>)" by blast
  from first second c show ?thesis by simp
qed

section \<open>Properties of the runtime launcher\<close>

lemma startcall_trace: "startcall K c st = (r, st') \<Longrightarrow> trace st' = trace st @ [Call c]"
  by (auto simp: startcall_def record_event_def split: prod.splits)

lemma startChild_started:
  assumes "startChild K p st = (Inr (f, pid), st1)"
  shows "args p \<noteq> [] \<and> flagParse K (tl (args p)) = Flags f \<and> rootfs f \<noteq> [] \<and>
    remaining f \<noteq> [] \<and>
    (\<exists>cmdPath.
       trace st1 = trace st @
         [Call (LookPath (hd (args p))),
          Log ''[runtime] starting child process in new namespaces'' [],
          Call (Start cmdPath (cmdPath # ''init'' # remaining f)
            (environ p @
               [''ROOTFS='' @ rootfs f, ''MEMLIMIT='' @ memLimit f, ''HOSTNAME='' @ hostname f])
            (CLONE_NEWUTS OR CLONE_NEWPID OR CLONE_NEWNS OR CLONE_NEWNET OR CLONE_NEWIPC)),
          Log ''[runtime] child PID: %d'' [Num pid]])"
proof -
  from assms have a: "args p \<noteq> []"
    by (auto simp: startChild_def split: if_splits)
  with assms obtain f' where fp: "flagParse K (tl (args p)) = Flags f'"
    by (cases "flagParse K (tl (args p))") (auto simp: startChild_def)
  with assms a have ne: "rootfs f' \<noteq> []" "remaining f' \<noteq> []"
    by (auto simp: startChild_def logFatalf_def split: if_splits)
  obtain r1 s1 where l: "pathcall K (LookPath (hd (args p))) st = (r1, s1)"
    by (cases "pathcall K (LookPath (hd (args p))) st")
  with assms a fp ne obtain cmdPath where c: "r1 = Inr cmdPath"
    by (cases r1) (auto simp: startChild_def logFatalf_def)
  let ?S = "Start cmdPath (cmdPath # ''init'' # remaining f')
            (environ p @
               [''ROOTFS='' @ rootfs f', ''MEMLIMIT='' @ memLimit f', ''HOSTNAME='' @ hostname f'])
            (CLONE_NEWUTS OR CLONE_NEWPID OR CLONE_NEWNS OR CLONE_NEWNET OR CLONE_NEWIPC)"
  let ?s2 = "logPrintf ''[runtime] starting child process in new namespaces'' [] s1"
  obtain r3 s3 where s: "startcall K ?S ?s2 = (r3, s3)" by (cases "startcall K ?S ?s2")
  from assms a fp ne l c s have res: "r3 = Inr pid" "f' = f"
      "st1 = logPrintf ''[runtime] child PID: %d'' [Num pid] s3"
    by (cases r3; simp add: startChild_def logFatalf_def Let_def)+
  from pathcall_trace [OF l] startcall_trace [OF s] res
  have "trace st1 = trace st @
         [Call (LookPath (hd (args p))),
          Log ''[runtime] starting child process in new namespaces'' [],
          Call ?S, Log ''[runtime] child PID: %d'' [Num pid]]"
    by (simp add: logPrintf_trace)
  with a fp ne res(2) show ?thesis by blast
qed

lemma waitChild_cases:
  assumes "sysWait K (Wait pid) (world st) = (wr, w)"
  shows "waitChild K pid st =
     (case wr of
        Inl e \<Rightarrow>
          (Fatal,
           \<lparr>world = w,
            trace = trace st @
              [Call (Wait pid), Log ''error waiting for child process: %v'' [Wrapped (Os e)]]\<rparr>)
      | Inr (Exited c) \<Rightarrow>
          (if c = 0 then Returned else OsExit (int c),
           \<lparr>world = w, trace = trace st @ [Call (Wait pid)]\<rparr>)
      | Inr (Signaled sg) \<Rightarrow>
          (OsExit (- 1), \<lparr>world = w, trace = trace st @ [Call (Wait pid)]\<rparr>))"
  using assms
  by (simp add: waitChild_def cmdWait_def ExitCode_def logFatalf_def logPrintf_def
      record_event_def split: sum.splits pstate.splits)

lemma limitChild_no_wait:
  assumes "limitChild K mem pid st = (r, st')"
  shows "\<exists>evs. trace st' = trace st @ evs \<and> filter isWait evs = []"
proof (cases "mem = []")
  case True
  with assms show ?thesis by (simp add: limitChild_def)
next
  case False
  show ?thesis
  proof (cases "parseMemLimit mem")
    case (Ok lb)
    obtain r1 s1 where a: "applyMemoryCgroupLimit K pid lb st = (r1, s1)"
      by (cases "applyMemoryCgroupLimit K pid lb st")
    obtain q s2 where rs: "runSteps K (limiterCalls pid lb) st = (q, s2)"
      by (cases "runSteps K (limiterCalls pid lb) st")
    with a have "s1 = s2" by (cases q) (auto simp: applyMemoryCgroupLimit_runSteps)
    with runSteps_trace [OF rs] obtain n where
      t: "trace s1 = trace st @ map Call (take n (limiterCalls pid lb))" by blast
    have nw: "filter isWait (map Call (take n (limiterCalls pid lb))) = []"
      by (auto simp: filter_empty_conv limiterCalls_def isWait_def dest!: in_set_takeD)
    from assms False Ok a obtain fmt as where "st' = logPrintf fmt as s1"
      by (cases r1) (auto simp: limitChild_def)
    with t have "trace st' = trace st @ (map Call (take n (limiterCalls pid lb)) @ [Log fmt as])"
      by (simp add: logPrintf_trace)
    moreover from nw have
      "filter isWait (map Call (take n (limiterCalls pid lb)) @ [Log fmt as]) = []"
      by (simp add: isWait_def)
    ultimately show ?thesis by blast
  next
    case (Err e)
    with assms False have "trace st' = trace st @
        [Log ''[runtime] warning: could not parse memory limit %q: %v'' [Str mem, Wrapped e]]"
      by (auto simp: limitChild_def logPrintf_trace)
    then show ?thesis by (auto simp: isWait_def)
  next
    case (Panic m)
    with assms False show ?thesis by (simp add: limitChild_def)
  qed
qed

lemma startChild_toy:
  "memLimit f = m \<Longrightarrow> rootfs f = ''/srv/rootfs'' \<Longrightarrow> hostname f = ''mini-container'' \<Longrightarrow>
   remaining f = [''/bin/sh''] \<Longrightarrow> Start ''/bin/minictr'' [''/bin/minictr'', ''init'', ''/bin/sh'']
            [''PATH=/bin'', ''ROOTFS=/srv/rootfs'', ''MEMLIMIT='' @ m,
             ''HOSTNAME=mini-container'']
            (CLONE_NEWUTS OR CLONE_NEWPID OR CLONE_NEWNS OR CLONE_NEWNET OR CLONE_NEWIPC) \<notin> set bad \<Longrightarrow>
   LookPath ''minictr'' \<notin> set bad \<Longrightarrow>
   startChild (toy bad ps f) runProc start0 =
     (Inr (f, 4242),
      \<lparr>world = [],
       trace =
         [Call (LookPath ''minictr''),
          Log ''[runtime] starting child process in new namespaces'' [],
          Call (Start ''/bin/minictr'' [''/bin/minictr'', ''init'', ''/bin/sh'']
            [''PATH=/bin'', ''ROOTFS=/srv/rootfs'', ''MEMLIMIT='' @ m,
             ''HOSTNAME=mini-container'']
            (CLONE_NEWUTS OR CLONE_NEWPID OR CLONE_NEWNS OR CLONE_NEWNET OR CLONE_NEWIPC)),
          Log ''[runtime] child PID: %d'' [Num 4242]]\<rparr>)"
  by (simp add: startChild_def runProc_def toy_def start0_def pathcall_def startcall_def
      logPrintf_def record_event_def Let_def)

text \<open>
  C7: in runtime mode, when the command line parses and the root file system is the empty
  string or no command is left, \<open>main\<close> ends fatally (exit status 1) having done nothing
  but log the error: the state is the one it started in with that one line added, so no
  call was made and no child was started.
\<close>

theorem launcher_rejects_empty_rootfs_or_command:
  assumes "\<not> initMode p" and "args p \<noteq> []" and "flagParse K (tl (args p)) = Flags f"
    and "rootfs f = [] \<or> remaining f = []"
  shows "main K p st =
      (Fatal,
       \<lparr>world = world st,
        trace = trace st @
          [Log (if rootfs f = [] then ''Error: --rootfs must be specified''
                else ''Error: must specify at least one command to run inside the container'')
             []]\<rparr>) \<and>
    exitStatus (fst (main K p st)) = Some 1"
  using assms
  by (auto simp: main_def startChild_def logFatalf_def logPrintf_def record_event_def
      exitStatus_def)

theorem launcher_rejects_empty_rootfs_or_command_witness:
  "\<not> initMode runProc \<and> args runProc \<noteq> [] \<and>
   main (toy [] (Exited 0) (flags0\<lparr>rootfs := []\<rparr>)) runProc start0 =
     (Fatal, \<lparr>world = [], trace = [Log ''Error: --rootfs must be specified'' []]\<rparr>) \<and>
   main (toy [] (Exited 0) (flags0\<lparr>remaining := []\<rparr>)) runProc start0 =
     (Fatal,
      \<lparr>world = [],
       trace =
         [Log ''Error: must specify at least one command to run inside the container'' []]\<rparr>)"
proof -
  have a: "\<not> initMode runProc" by (simp add: initMode_def runProc_def)
  have b: "args runProc \<noteq> []" by (simp add: runProc_def)
  have c1: "flagParse (toy [] (Exited 0) (flags0\<lparr>rootfs := []\<rparr>)) (tl (args runProc)) =
      Flags (flags0\<lparr>rootfs := []\<rparr>)" by (simp add: toy_def)
  have c2: "flagParse (toy [] (Exited 0) (flags0\<lparr>remaining := []\<rparr>)) (tl (args runProc)) =
      Flags (flags0\<lparr>remaining := []\<rparr>)" by (simp add: toy_def)
  have d1: "rootfs (flags0\<lparr>rootfs := []\<rparr>) = [] \<or> remaining (flags0\<lparr>rootfs := []\<rparr>) = []"
    by simp
  have d2: "rootfs (flags0\<lparr>remaining := []\<rparr>) = [] \<or> remaining (flags0\<lparr>remaining := []\<rparr>) = []"
    by simp
  have e: "rootfs (flags0\<lparr>remaining := []\<rparr>) \<noteq> []" by (simp add: flags0_def)
  from launcher_rejects_empty_rootfs_or_command [OF a b c1 d1, of start0]
    launcher_rejects_empty_rootfs_or_command [OF a b c2 d2, of start0] a b e
  show ?thesis by (simp add: start0_def)
qed

text \<open>
  C2, as the specification states it, counts a signal among the failures of the wait
  that end the launcher fatally with a descriptive message. The code does not: a child
  ended by a signal comes back from the wait as an \<open>*exec.ExitError\<close>, which \<open>main\<close>
  passes on as \<open>os.Exit(-1)\<close>, exit status 255, with no message. Here the child is ended
  by signal 9.
\<close>

theorem launcher_signal_counterexample:
  "main (toy [] (Signaled 9) (flags0\<lparr>memLimit := []\<rparr>)) runProc start0 =
     (OsExit (- 1),
      \<lparr>world = [],
       trace =
         [Call (LookPath ''minictr''),
          Log ''[runtime] starting child process in new namespaces'' [],
          Call (Start ''/bin/minictr'' [''/bin/minictr'', ''init'', ''/bin/sh'']
            [''PATH=/bin'', ''ROOTFS=/srv/rootfs'', ''MEMLIMIT='',
             ''HOSTNAME=mini-container'']
            (CLONE_NEWUTS OR CLONE_NEWPID OR CLONE_NEWNS OR CLONE_NEWNET OR CLONE_NEWIPC)),
          Log ''[runtime] child PID: %d'' [Num 4242],
          Call (Wait 4242)]\<rparr>) \<and>
   fst (main (toy [] (Signaled 9) (flags0\<lparr>memLimit := []\<rparr>)) runProc start0) \<noteq> Fatal \<and>
   exitStatus (fst (main (toy [] (Signaled 9) (flags0\<lparr>memLimit := []\<rparr>)) runProc start0)) =
     Some 255"
proof -
  let ?f = "flags0\<lparr>memLimit := []\<rparr>"
  let ?K = "toy [] (Signaled 9) ?f"
  have a: "\<not> initMode runProc" by (simp add: initMode_def runProc_def)
  have b: "startChild ?K runProc start0 =
     (Inr (?f, 4242),
      \<lparr>world = [],
       trace =
         [Call (LookPath ''minictr''),
          Log ''[runtime] starting child process in new namespaces'' [],
          Call (Start ''/bin/minictr'' [''/bin/minictr'', ''init'', ''/bin/sh'']
            [''PATH=/bin'', ''ROOTFS=/srv/rootfs'', ''MEMLIMIT='',
             ''HOSTNAME=mini-container'']
            (CLONE_NEWUTS OR CLONE_NEWPID OR CLONE_NEWNS OR CLONE_NEWNET OR CLONE_NEWIPC)),
          Log ''[runtime] child PID: %d'' [Num 4242]]\<rparr>)"
    using startChild_toy [of ?f "[]" "[]" "Signaled 9"] by (simp add: flags0_def)
  have m: "main ?K runProc start0 =
     (OsExit (- 1),
      \<lparr>world = [],
       trace =
         [Call (LookPath ''minictr''),
          Log ''[runtime] starting child process in new namespaces'' [],
          Call (Start ''/bin/minictr'' [''/bin/minictr'', ''init'', ''/bin/sh'']
            [''PATH=/bin'', ''ROOTFS=/srv/rootfs'', ''MEMLIMIT='',
             ''HOSTNAME=mini-container'']
            (CLONE_NEWUTS OR CLONE_NEWPID OR CLONE_NEWNS OR CLONE_NEWNET OR CLONE_NEWIPC)),
          Log ''[runtime] child PID: %d'' [Num 4242],
          Call (Wait 4242)]\<rparr>)"
    using a b
    by (simp add: main_def limitChild_def waitChild_def cmdWait_def ExitCode_def toy_def
        record_event_def)
  show ?thesis unfolding m by (simp add: exitStatus_def)
qed

text \<open>
  C2, amended: when the child has been started and the memory-limit block is through,
  \<open>main\<close> waits for the child once, and what that wait yields decides how \<open>main\<close>
  ends. A child that exited with code \<open>c\<close> makes the launcher return normally for
  \<open>c = 0\<close> and call \<open>os.Exit(c)\<close> otherwise, so the launcher's exit status is \<open>c\<close>; a
  child ended by a signal gives \<open>os.Exit(-1)\<close>, exit status 255, with no message; and the
  launcher ends fatally, logging \<open>error waiting for child process\<close> with the cause,
  exactly when the wait itself returned an error. The whole run contains one wait.
\<close>

theorem launcher_exit_code:
  assumes "\<not> initMode p" and "startChild K p st = (Inr (f, pid), st1)"
    and "limitChild K (memLimit f) pid st1 = (None, st2)"
    and "sysWait K (Wait pid) (world st2) = (wr, w)"
  shows "main K p st =
     (case wr of
        Inl e \<Rightarrow>
          (Fatal,
           \<lparr>world = w,
            trace = trace st2 @
              [Call (Wait pid), Log ''error waiting for child process: %v'' [Wrapped (Os e)]]\<rparr>)
      | Inr (Exited c) \<Rightarrow>
          (if c = 0 then Returned else OsExit (int c),
           \<lparr>world = w, trace = trace st2 @ [Call (Wait pid)]\<rparr>)
      | Inr (Signaled sg) \<Rightarrow>
          (OsExit (- 1), \<lparr>world = w, trace = trace st2 @ [Call (Wait pid)]\<rparr>)) \<and>
    (\<forall>c. wr = Inr (Exited c) \<and> c < 256 \<longrightarrow> exitStatus (fst (main K p st)) = Some (int c)) \<and>
    (\<forall>sg. wr = Inr (Signaled sg) \<longrightarrow> exitStatus (fst (main K p st)) = Some 255) \<and>
    (fst (main K p st) = Fatal \<longleftrightarrow> (\<exists>e. wr = Inl e)) \<and>
    filter isWait (drop (length (trace st)) (trace (snd (main K p st)))) = [Call (Wait pid)]"
proof -
  have m: "main K p st = waitChild K pid st2"
    using assms(1-3) by (simp add: main_def)
  note w = waitChild_cases [OF assms(4)]
  have one: "main K p st =
     (case wr of
        Inl e \<Rightarrow>
          (Fatal,
           \<lparr>world = w,
            trace = trace st2 @
              [Call (Wait pid), Log ''error waiting for child process: %v'' [Wrapped (Os e)]]\<rparr>)
      | Inr (Exited c) \<Rightarrow>
          (if c = 0 then Returned else OsExit (int c),
           \<lparr>world = w, trace = trace st2 @ [Call (Wait pid)]\<rparr>)
      | Inr (Signaled sg) \<Rightarrow>
          (OsExit (- 1), \<lparr>world = w, trace = trace st2 @ [Call (Wait pid)]\<rparr>))"
    unfolding m w ..
  have two: "exitStatus (fst (main K p st)) = Some (int c)" if "wr = Inr (Exited c)" "c < 256" for c
    using that by (simp add: one exitStatus_def)
  have sig: "exitStatus (fst (main K p st)) = Some 255" if "wr = Inr (Signaled sg)" for sg
    using that by (simp add: one exitStatus_def)
  have three: "fst (main K p st) = Fatal \<longleftrightarrow> (\<exists>e. wr = Inl e)"
    by (simp add: one split: sum.splits pstate.splits)
  from startChild_started [OF assms(2)] obtain e1 where
    t1: "trace st1 = trace st @ e1" "filter isWait e1 = []"
    by (auto simp: isWait_def)
  from limitChild_no_wait [OF assms(3)] obtain e2 where
    t2: "trace st2 = trace st1 @ e2" "filter isWait e2 = []" by blast
  have "\<exists>lg. trace (snd (main K p st)) = trace st2 @ Call (Wait pid) # lg \<and> filter isWait lg = []"
    by (simp add: one isWait_def split: sum.splits pstate.splits)
  then obtain lg where
    t3: "trace (snd (main K p st)) = trace st2 @ Call (Wait pid) # lg" "filter isWait lg = []"
    by blast
  from t1 t2 t3 have four:
    "filter isWait (drop (length (trace st)) (trace (snd (main K p st)))) = [Call (Wait pid)]"
    by (simp add: isWait_def)
  from one two sig three four show ?thesis by blast
qed

theorem launcher_exit_code_witness:
  "\<not> initMode runProc \<and>
   main (toy [] (Exited 7) flags0) runProc start0 =
     (OsExit 7,
      \<lparr>world =
         [''/sys/fs/cgroup/memory/mini_4242'',
          ''/sys/fs/cgroup/memory/mini_4242/memory.limit_in_bytes'',
          ''/sys/fs/cgroup/memory/mini_4242/cgroup.procs''],
       trace =
         [Call (LookPath ''minictr''),
          Log ''[runtime] starting child process in new namespaces'' [],
          Call (Start ''/bin/minictr'' [''/bin/minictr'', ''init'', ''/bin/sh'']
            [''PATH=/bin'', ''ROOTFS=/srv/rootfs'', ''MEMLIMIT=100m'',
             ''HOSTNAME=mini-container'']
            (CLONE_NEWUTS OR CLONE_NEWPID OR CLONE_NEWNS OR CLONE_NEWNET OR CLONE_NEWIPC)),
          Log ''[runtime] child PID: %d'' [Num 4242],
          Call (Stat ''/sys/fs/cgroup/memory''),
          Call (Mkdir ''/sys/fs/cgroup/memory/mini_4242'' 493),
          Call (WriteFile ''/sys/fs/cgroup/memory/mini_4242/memory.limit_in_bytes''
            ''104857600'' 420),
          Call (WriteFile ''/sys/fs/cgroup/memory/mini_4242/cgroup.procs'' ''4242'' 420),
          Log ''[runtime] applied memory limit %d bytes to PID %d'' [Num 104857600, Num 4242],
          Call (Wait 4242)]\<rparr>) \<and>
   exitStatus (fst (main (toy [] (Exited 7) flags0) runProc start0)) = Some 7"
proof -
  let ?K = "toy [] (Exited 7) flags0"
  let ?t1 = "[Call (LookPath ''minictr''),
          Log ''[runtime] starting child process in new namespaces'' [],
          Call (Start ''/bin/minictr'' [''/bin/minictr'', ''init'', ''/bin/sh'']
            [''PATH=/bin'', ''ROOTFS=/srv/rootfs'', ''MEMLIMIT=100m'',
             ''HOSTNAME=mini-container'']
            (CLONE_NEWUTS OR CLONE_NEWPID OR CLONE_NEWNS OR CLONE_NEWNET OR CLONE_NEWIPC)),
          Log ''[runtime] child PID: %d'' [Num 4242]]"
  let ?st1 = "\<lparr>world = [], trace = ?t1\<rparr> :: string list state"
  let ?w2 = "[''/sys/fs/cgroup/memory/mini_4242'',
          ''/sys/fs/cgroup/memory/mini_4242/memory.limit_in_bytes'',
          ''/sys/fs/cgroup/memory/mini_4242/cgroup.procs'']"
  let ?st2 = "\<lparr>world = ?w2,
       trace = ?t1 @
         [Call (Stat ''/sys/fs/cgroup/memory''),
          Call (Mkdir ''/sys/fs/cgroup/memory/mini_4242'' 493),
          Call (WriteFile ''/sys/fs/cgroup/memory/mini_4242/memory.limit_in_bytes''
            ''104857600'' 420),
          Call (WriteFile ''/sys/fs/cgroup/memory/mini_4242/cgroup.procs'' ''4242'' 420),
          Log ''[runtime] applied memory limit %d bytes to PID %d''
            [Num 104857600, Num 4242]]\<rparr>"
  have a: "\<not> initMode runProc" by (simp add: initMode_def runProc_def)
  have b: "startChild ?K runProc start0 = (Inr (flags0, 4242), ?st1)"
    using startChild_toy [of flags0 "''100m''" "[]" "Exited 7"] by (simp add: flags0_def)
  have ml: "memLimit flags0 = ''100m''" by (simp add: flags0_def)
  have lim: "applyMemoryCgroupLimit ?K 4242 104857600 ?st1 =
      (None, \<lparr>world = ?w2,
       trace = ?t1 @
         [Call (Stat ''/sys/fs/cgroup/memory''),
          Call (Mkdir ''/sys/fs/cgroup/memory/mini_4242'' 493),
          Call (WriteFile ''/sys/fs/cgroup/memory/mini_4242/memory.limit_in_bytes''
            ''104857600'' 420),
          Call (WriteFile ''/sys/fs/cgroup/memory/mini_4242/cgroup.procs'' ''4242'' 420)]\<rparr>)"
    unfolding applyMemoryCgroupLimit_runSteps
    by (simp add: limiter_eval toy_def toyEffect_def syscall_def record_event_def)
  have c: "limitChild ?K (memLimit flags0) 4242 ?st1 = (None, ?st2)"
    unfolding ml by (simp add: limitChild_def parse_100m lim logPrintf_def record_event_def)
  have d: "sysWait ?K (Wait 4242) (world ?st2) = (Inr (Exited 7), ?w2)"
    by (simp add: toy_def)
  from launcher_exit_code [OF a b c d] a show ?thesis by (simp add: exitStatus_def)
qed

subsection \<open>The memory limit\<close>

lemma waitChild_trace:
  "\<exists>lg. trace (snd (waitChild K pid s)) = trace s @ Call (Wait pid) # lg \<and>
     (lg = [] \<or> (\<exists>e. lg = [Log ''error waiting for child process: %v'' [Wrapped e]]))"
proof -
  obtain wr w where a: "sysWait K (Wait pid) (world s) = (wr, w)"
    by (cases "sysWait K (Wait pid) (world s)")
  show ?thesis
    unfolding waitChild_cases [OF a] by (simp split: sum.splits pstate.splits)
qed

text \<open>
  What the launcher does by design: with no memory-limit string it goes from starting the
  child straight to the wait, so the resource limiter is not called and no directory is
  created; an error returned by the parser, and an error returned by the limiter, are
  logged as warnings, and the launcher goes on to the wait.
\<close>

lemma memory_limit_is_advisory:
  assumes "\<not> initMode p" and "startChild K p st = (Inr (f, pid), st1)"
  shows
    "(memLimit f = [] \<longrightarrow>
        main K p st = waitChild K pid st1 \<and>
        (\<exists>lg. trace (snd (main K p st)) = trace st1 @ Call (Wait pid) # lg \<and>
           (lg = [] \<or> (\<exists>e. lg = [Log ''error waiting for child process: %v'' [Wrapped e]])))) \<and>
     (\<forall>e. memLimit f \<noteq> [] \<and> parseMemLimit (memLimit f) = Err e \<longrightarrow>
        main K p st =
          waitChild K pid
            (logPrintf ''[runtime] warning: could not parse memory limit %q: %v''
               [Str (memLimit f), Wrapped e] st1)) \<and>
     (\<forall>lb e st2.
        memLimit f \<noteq> [] \<and> parseMemLimit (memLimit f) = Ok lb \<and>
        applyMemoryCgroupLimit K pid lb st1 = (Some e, st2) \<longrightarrow>
        main K p st =
          waitChild K pid
            (logPrintf ''[runtime] warning: failed to apply memory cgroup limit: %v''
               [Wrapped e] st2))"
proof (intro conjI allI impI)
  assume "memLimit f = []"
  with assms show m: "main K p st = waitChild K pid st1"
    by (simp add: main_def limitChild_def)
  from waitChild_trace [of K pid st1]
  show "\<exists>lg. trace (snd (main K p st)) = trace st1 @ Call (Wait pid) # lg \<and>
           (lg = [] \<or> (\<exists>e. lg = [Log ''error waiting for child process: %v'' [Wrapped e]]))"
    unfolding m .
next
  fix e
  assume "memLimit f \<noteq> [] \<and> parseMemLimit (memLimit f) = Err e"
  with assms show "main K p st =
          waitChild K pid
            (logPrintf ''[runtime] warning: could not parse memory limit %q: %v''
               [Str (memLimit f), Wrapped e] st1)"
    by (simp add: main_def limitChild_def)
next
  fix lb e st2
  assume "memLimit f \<noteq> [] \<and> parseMemLimit (memLimit f) = Ok lb \<and>
        applyMemoryCgroupLimit K pid lb st1 = (Some e, st2)"
  with assms show "main K p st =
          waitChild K pid
            (logPrintf ''[runtime] warning: failed to apply memory cgroup limit: %v''
               [Wrapped e] st2)"
    by (simp add: main_def limitChild_def)
qed

lemma memory_limit_is_advisory_example:
  "\<not> initMode runProc \<and>
   main (toy [] (Exited 0) (flags0\<lparr>memLimit := []\<rparr>)) runProc start0 =
     (Returned,
      \<lparr>world = [],
       trace =
         [Call (LookPath ''minictr''),
          Log ''[runtime] starting child process in new namespaces'' [],
          Call (Start ''/bin/minictr'' [''/bin/minictr'', ''init'', ''/bin/sh'']
            [''PATH=/bin'', ''ROOTFS=/srv/rootfs'', ''MEMLIMIT='',
             ''HOSTNAME=mini-container'']
            (CLONE_NEWUTS OR CLONE_NEWPID OR CLONE_NEWNS OR CLONE_NEWNET OR CLONE_NEWIPC)),
          Log ''[runtime] child PID: %d'' [Num 4242],
          Call (Wait 4242)]\<rparr>) \<and>
   main (toy [] (Exited 0) (flags0\<lparr>memLimit := ''100x''\<rparr>)) runProc start0 =
     (Returned,
      \<lparr>world = [],
       trace =
         [Call (LookPath ''minictr''),
          Log ''[runtime] starting child process in new namespaces'' [],
          Call (Start ''/bin/minictr'' [''/bin/minictr'', ''init'', ''/bin/sh'']
            [''PATH=/bin'', ''ROOTFS=/srv/rootfs'', ''MEMLIMIT=100x'',
             ''HOSTNAME=mini-container'']
            (CLONE_NEWUTS OR CLONE_NEWPID OR CLONE_NEWNS OR CLONE_NEWNET OR CLONE_NEWIPC)),
          Log ''[runtime] child PID: %d'' [Num 4242],
          Log ''[runtime] warning: could not parse memory limit %q: %v''
            [Str ''100x'',
             Wrapped (Errorf ''invalid memory limit suffix %q'' [Str ''x''])],
          Call (Wait 4242)]\<rparr>) \<and>
   main (toy [Stat ''/sys/fs/cgroup/memory''] (Exited 0) flags0) runProc start0 =
     (Returned,
      \<lparr>world = [],
       trace =
         [Call (LookPath ''minictr''),
          Log ''[runtime] starting child process in new namespaces'' [],
          Call (Start ''/bin/minictr'' [''/bin/minictr'', ''init'', ''/bin/sh'']
            [''PATH=/bin'', ''ROOTFS=/srv/rootfs'', ''MEMLIMIT=100m'',
             ''HOSTNAME=mini-container'']
            (CLONE_NEWUTS OR CLONE_NEWPID OR CLONE_NEWNS OR CLONE_NEWNET OR CLONE_NEWIPC)),
          Log ''[runtime] child PID: %d'' [Num 4242],
          Call (Stat ''/sys/fs/cgroup/memory''),
          Log ''[runtime] warning: failed to apply memory cgroup limit: %v''
            [Wrapped (Errorf ''%q not found or not accessible: %w''
               [Str ''/sys/fs/cgroup/memory'', Wrapped (Os (OSError ''denied''))])],
          Call (Wait 4242)]\<rparr>)"
proof -
  have a: "\<not> initMode runProc" by (simp add: initMode_def runProc_def)
  let ?f1 = "flags0\<lparr>memLimit := []\<rparr>"
  let ?K1 = "toy [] (Exited 0) ?f1"
  have b1: "startChild ?K1 runProc start0 =
     (Inr (?f1, 4242),
      \<lparr>world = [],
       trace =
         [Call (LookPath ''minictr''),
          Log ''[runtime] starting child process in new namespaces'' [],
          Call (Start ''/bin/minictr'' [''/bin/minictr'', ''init'', ''/bin/sh'']
            [''PATH=/bin'', ''ROOTFS=/srv/rootfs'', ''MEMLIMIT='',
             ''HOSTNAME=mini-container'']
            (CLONE_NEWUTS OR CLONE_NEWPID OR CLONE_NEWNS OR CLONE_NEWNET OR CLONE_NEWIPC)),
          Log ''[runtime] child PID: %d'' [Num 4242]]\<rparr>)"
    using startChild_toy [of ?f1 "[]" "[]" "Exited 0"] by (simp add: flags0_def)
  have e1: "memLimit ?f1 = []" by simp
  note r1 = memory_limit_is_advisory [OF a b1, THEN conjunct1, rule_format, OF e1, THEN conjunct1]
  let ?f2 = "flags0\<lparr>memLimit := ''100x''\<rparr>"
  let ?K2 = "toy [] (Exited 0) ?f2"
  have b2: "startChild ?K2 runProc start0 =
     (Inr (?f2, 4242),
      \<lparr>world = [],
       trace =
         [Call (LookPath ''minictr''),
          Log ''[runtime] starting child process in new namespaces'' [],
          Call (Start ''/bin/minictr'' [''/bin/minictr'', ''init'', ''/bin/sh'']
            [''PATH=/bin'', ''ROOTFS=/srv/rootfs'', ''MEMLIMIT=100x'',
             ''HOSTNAME=mini-container'']
            (CLONE_NEWUTS OR CLONE_NEWPID OR CLONE_NEWNS OR CLONE_NEWNET OR CLONE_NEWIPC)),
          Log ''[runtime] child PID: %d'' [Num 4242]]\<rparr>)"
    using startChild_toy [of ?f2 "''100x''" "[]" "Exited 0"] by (simp add: flags0_def)
  have e2: "memLimit ?f2 \<noteq> [] \<and>
      parseMemLimit (memLimit ?f2) = Err (Errorf ''invalid memory limit suffix %q'' [Str ''x''])"
    by (simp add: parseMemLimit_100x)
  note r2 = memory_limit_is_advisory
    [OF a b2, THEN conjunct2, THEN conjunct1, rule_format, OF e2]
  let ?K3 = "toy [Stat ''/sys/fs/cgroup/memory''] (Exited 0) flags0"
  let ?t3 = "[Call (LookPath ''minictr''),
          Log ''[runtime] starting child process in new namespaces'' [],
          Call (Start ''/bin/minictr'' [''/bin/minictr'', ''init'', ''/bin/sh'']
            [''PATH=/bin'', ''ROOTFS=/srv/rootfs'', ''MEMLIMIT=100m'',
             ''HOSTNAME=mini-container'']
            (CLONE_NEWUTS OR CLONE_NEWPID OR CLONE_NEWNS OR CLONE_NEWNET OR CLONE_NEWIPC)),
          Log ''[runtime] child PID: %d'' [Num 4242]]"
  have b3: "startChild ?K3 runProc start0 = (Inr (flags0, 4242), \<lparr>world = [], trace = ?t3\<rparr>)"
    using startChild_toy [of flags0 "''100m''" "[Stat ''/sys/fs/cgroup/memory'']" "Exited 0"]
    by (simp add: flags0_def)
  have e3: "memLimit flags0 \<noteq> [] \<and> parseMemLimit (memLimit flags0) = Ok 104857600 \<and>
      applyMemoryCgroupLimit ?K3 4242 104857600 \<lparr>world = [], trace = ?t3\<rparr> =
        (Some (Errorf ''%q not found or not accessible: %w''
           [Str ''/sys/fs/cgroup/memory'', Wrapped (Os (OSError ''denied''))]),
         \<lparr>world = [], trace = ?t3 @ [Call (Stat ''/sys/fs/cgroup/memory'')]\<rparr>)"
    by (simp add: flags0_def parse_100m applyMemoryCgroupLimit_def toy_def syscall_def
        record_event_def Let_def)
  note r3 = memory_limit_is_advisory
    [OF a b3, THEN conjunct2, THEN conjunct2, rule_format, OF e3]
  have w: "sysWait (toy bad (Exited 0) g) (Wait 4242) [] = (Inr (Exited 0), [])"
    if "Wait 4242 \<notin> set bad" for bad g
    using that by (simp add: toy_def)
  show ?thesis
    unfolding r1 r2 r3
    using a by (simp add: waitChild_def cmdWait_def toy_def logPrintf_def record_event_def)
qed

text \<open>
  C8: a memory-limit string that is supplied is never to end the launcher. The parser
  panics on a string of white space only (see C4), and nothing in \<open>main\<close> recovers the
  panic: with \<open>--mem " "\<close> the launcher starts the child and then crashes, without a
  warning and without waiting for the child.
\<close>

theorem launcher_crashes_on_blank_limit:
  "main (toy [] (Exited 0) (flags0\<lparr>memLimit := '' ''\<rparr>)) runProc start0 =
     (Crashed ''runtime error: index out of range [-1]'',
      \<lparr>world = [],
       trace =
         [Call (LookPath ''minictr''),
          Log ''[runtime] starting child process in new namespaces'' [],
          Call (Start ''/bin/minictr'' [''/bin/minictr'', ''init'', ''/bin/sh'']
            [''PATH=/bin'', ''ROOTFS=/srv/rootfs'', ''MEMLIMIT= '',
             ''HOSTNAME=mini-container'']
            (CLONE_NEWUTS OR CLONE_NEWPID OR CLONE_NEWNS OR CLONE_NEWNET OR CLONE_NEWIPC)),
          Log ''[runtime] child PID: %d'' [Num 4242]]\<rparr>)"
proof -
  let ?f = "flags0\<lparr>memLimit := '' ''\<rparr>"
  have a: "\<not> initMode runProc" by (simp add: initMode_def runProc_def)
  have b: "startChild (toy [] (Exited 0) ?f) runProc start0 =
     (Inr (?f, 4242),
      \<lparr>world = [],
       trace =
         [Call (LookPath ''minictr''),
          Log ''[runtime] starting child process in new namespaces'' [],
          Call (Start ''/bin/minictr'' [''/bin/minictr'', ''init'', ''/bin/sh'']
            [''PATH=/bin'', ''ROOTFS=/srv/rootfs'', ''MEMLIMIT= '',
             ''HOSTNAME=mini-container'']
            (CLONE_NEWUTS OR CLONE_NEWPID OR CLONE_NEWNS OR CLONE_NEWNET OR CLONE_NEWIPC)),
          Log ''[runtime] child PID: %d'' [Num 4242]]\<rparr>)"
    using startChild_toy [of ?f "'' ''" "[]" "Exited 0"] by (simp add: flags0_def)
  have c: "parseMemLimit '' '' = Panic ''runtime error: index out of range [-1]''"
    by (simp add: parse_eval trim_eval)
  from a b c show ?thesis by (simp add: main_def limitChild_def)
qed

end
